theory Spec2Isabelle
  imports Complex_Main "HOL-Library.Sublist"
begin

section \<open>Python values and strings\<close>

text \<open>
  The values an agent can put into a tool call are JSON scalars; the environment stores
  some of them unchecked (a log message, a ticket note, a flag). Floats, arrays and
  objects as argument values are outside this model. Fixture data (the initial state and
  the acceptance criteria of a scenario) is typed as the harness reads it; the deployment
  requirement of the criteria is a dict of such scalars.
\<close>

datatype pyval = PNone | PBool bool | PInt int | PStr string

text \<open>The exception classes that occur; the string is the exception's message.\<close>

datatype exn = TypeError string | OverflowError string

definition digit :: "nat \<Rightarrow> char" where
  "digit d = ''0123456789'' ! d"

fun str_nat :: "nat \<Rightarrow> string" where
  "str_nat n = (if n < 10 then [digit n] else str_nat (n div 10) @ [digit (n mod 10)])"

declare str_nat.simps [simp del]

text \<open>\<open>str(i)\<close> for an int, as an f-string renders it.\<close>

definition str_int :: "int \<Rightarrow> string" where
  "str_int i = (if i < 0 then CHR ''-'' # str_nat (nat (- i)) else str_nat (nat i))"

text \<open>\<open>str(v)\<close>, as an f-string renders \<open>{v}\<close>.\<close>

fun py_str :: "pyval \<Rightarrow> string" where
  "py_str PNone = ''None''"
| "py_str (PBool b) = (if b then ''True'' else ''False'')"
| "py_str (PInt i) = str_int i"
| "py_str (PStr s) = s"

text \<open>\<open>bool(v)\<close>: Python truthiness.\<close>

fun truthy :: "pyval \<Rightarrow> bool" where
  "truthy PNone = False"
| "truthy (PBool b) = b"
| "truthy (PInt i) = (i \<noteq> 0)"
| "truthy (PStr s) = (s \<noteq> [])"

text \<open>The name of a value's type, as TypeError messages print it.\<close>

fun type_name :: "pyval \<Rightarrow> string" where
  "type_name PNone = ''NoneType''"
| "type_name (PBool b) = ''bool''"
| "type_name (PInt i) = ''int''"
| "type_name (PStr s) = ''str''"

fun starts_with :: "string \<Rightarrow> string \<Rightarrow> bool" where
  "starts_with [] ys = True"
| "starts_with (x # xs) [] = False"
| "starts_with (x # xs) (y # ys) = (x = y \<and> starts_with xs ys)"

text \<open>\<open>xs in ys\<close> on two strings: \<open>xs\<close> occurs in \<open>ys\<close> as a contiguous substring.\<close>

fun str_in :: "string \<Rightarrow> string \<Rightarrow> bool" where
  "str_in xs [] = (xs = [])"
| "str_in xs (y # ys) = (starts_with xs (y # ys) \<or> str_in xs ys)"

text \<open>\<open>s in v\<close> for a string \<open>s\<close>: a substring test on a string, TypeError on a scalar
  that is not iterable.\<close>

fun py_in :: "string \<Rightarrow> pyval \<Rightarrow> exn + bool" where
  "py_in s (PStr m) = Inr (str_in s m)"
| "py_in s v = Inl (TypeError (''argument of type '' @ [CHR 0x27] @ type_name v @ [CHR 0x27] @ '' is not iterable''))"

section \<open>Floats\<close>

text \<open>
  A Python float is an IEEE 754 binary64 number: a real that 53 significant bits
  represent, an infinity or NaN. Every operation returns the exact result rounded to the
  nearest representable number, ties to the even significand. (The sign of a zero is not
  modelled: \<open>0.0\<close> and \<open>-0.0\<close> are equal in every comparison of the program.)
\<close>

datatype double = Finite real | PosInf | NegInf | NaN

text \<open>\<open>ilog2 x\<close> is the exponent \<open>e\<close> with \<open>2^e \<le> x < 2^(e+1)\<close>, searched by
  halving and doubling; the bound on the search is wider than the exponents that results
  of operations on binary64 numbers have.\<close>

fun ilog2_aux :: "nat \<Rightarrow> real \<Rightarrow> int" where
  "ilog2_aux 0 x = 0"
| "ilog2_aux (Suc n) x =
     (if 2 \<le> x then ilog2_aux n (x / 2) + 1
      else if x < 1 then ilog2_aux n (2 * x) - 1
      else 0)"

definition ilog2 :: "real \<Rightarrow> int" where
  "ilog2 x = ilog2_aux 2200 x"

definition round_half_even :: "real \<Rightarrow> int" where
  "round_half_even x =
     (let f = \<lfloor>x\<rfloor>; d = x - of_int f in
      if d < 1 / 2 then f else if 1 / 2 < d then f + 1 else if even f then f else f + 1)"

text \<open>Rounding a real to binary64: the unit in the last place is \<open>2^(e-52)\<close>, from
  \<open>2^(-1074)\<close> on (subnormal numbers); a result of magnitude \<open>2^1024\<close> overflows.\<close>

definition fl :: "real \<Rightarrow> double" where
  "fl x =
     (if x = 0 then Finite 0
      else
        (let e = max (ilog2 \<bar>x\<bar>) (- 1022);
             u = 2 powi (e - 52);
             y = of_int (round_half_even (x / u)) * u in
         if 2 ^ 1024 \<le> \<bar>y\<bar> then (if 0 < x then PosInf else NegInf) else Finite y))"

fun fneg :: "double \<Rightarrow> double" where
  "fneg (Finite a) = Finite (- a)"
| "fneg PosInf = NegInf"
| "fneg NegInf = PosInf"
| "fneg NaN = NaN"

fun fadd :: "double \<Rightarrow> double \<Rightarrow> double" where
  "fadd (Finite a) (Finite b) = fl (a + b)"
| "fadd NaN y = NaN"
| "fadd x NaN = NaN"
| "fadd PosInf NegInf = NaN"
| "fadd NegInf PosInf = NaN"
| "fadd PosInf y = PosInf"
| "fadd NegInf y = NegInf"
| "fadd x PosInf = PosInf"
| "fadd x NegInf = NegInf"

definition fsub :: "double \<Rightarrow> double \<Rightarrow> double" where
  "fsub x y = fadd x (fneg y)"

text \<open>The sign of a float that is not NaN: \<open>-1\<close>, \<open>0\<close> or \<open>1\<close>.\<close>

fun fsign :: "double \<Rightarrow> int" where
  "fsign (Finite a) = (if a < 0 then - 1 else if a = 0 then 0 else 1)"
| "fsign PosInf = 1"
| "fsign NegInf = - 1"
| "fsign NaN = 0"

fun fmul :: "double \<Rightarrow> double \<Rightarrow> double" where
  "fmul (Finite a) (Finite b) = fl (a * b)"
| "fmul NaN y = NaN"
| "fmul x NaN = NaN"
| "fmul x y =
     (if fsign x * fsign y = 0 then NaN else if 0 < fsign x * fsign y then PosInf else NegInf)"

text \<open>\<open>x < y\<close> on floats; every comparison with NaN is false.\<close>

fun flt :: "double \<Rightarrow> double \<Rightarrow> bool" where
  "flt (Finite a) (Finite b) = (a < b)"
| "flt NaN y = False"
| "flt x NaN = False"
| "flt PosInf y = False"
| "flt x PosInf = True"
| "flt NegInf NegInf = False"
| "flt NegInf y = True"
| "flt x NegInf = False"

text \<open>\<open>max(a, b)\<close>: the first argument, unless the second is greater.\<close>

definition py_max :: "double \<Rightarrow> double \<Rightarrow> double" where
  "py_max a b = (if flt a b then b else a)"

text \<open>\<open>round(x, 1)\<close>: the exact value of \<open>x\<close> rounded to one decimal, ties to even, and
  the nearest float to that decimal.\<close>

fun py_round1 :: "double \<Rightarrow> double" where
  "py_round1 (Finite a) = fl (of_int (round_half_even (a * 10)) / 10)"
| "py_round1 x = x"

text \<open>An int operand of a float operation is converted first, and the conversion raises
  when the int is too large.\<close>

definition int_to_double :: "int \<Rightarrow> exn + double" where
  "int_to_double n =
     (case fl (of_int n) of
        Finite y \<Rightarrow> Inr (Finite y)
      | _ \<Rightarrow> Inl (OverflowError ''int too large to convert to float''))"

section \<open>The environment and the tools (tools.py)\<close>

type_synonym timestamp = real

record deployment =
  service :: string
  namespace :: string
  replicas :: int
  restarted_at :: "timestamp option"

record ticket =
  status :: string
  ticket_note :: pyval

text \<open>An incident-log entry is the dict \<open>{"ts", "severity", "message"}\<close> that
  \<open>incident_log\<close> appends; the message is stored as the call gave it.\<close>

record log_entry =
  ts :: timestamp
  severity :: string
  message :: pyval

record env_state =
  deployments :: "string \<times> string \<rightharpoonup> deployment"
  feature_flags :: "pyval \<rightharpoonup> pyval"
  env_ticket :: ticket
  incident_log_entries :: "log_entry list"
  seed :: int

text \<open>\<open>EnvState()\<close>: the defaults of the fields.\<close>

definition EnvState :: env_state where
  "EnvState = \<lparr>deployments = Map.empty, feature_flags = Map.empty,
     env_ticket = \<lparr>status = ''open'', ticket_note = PStr ''''\<rparr>,
     incident_log_entries = [], seed = 42\<rparr>"

text \<open>A value in the \<open>data\<close> payload of a result: a scalar or a float.\<close>

datatype dval = DVal pyval | DFloat double

record tool_result =
  ok :: bool
  data :: "(string \<times> dval) list option"
  error :: "string option"

text \<open>What a tool reads from outside the environment: the clock (\<open>time.time()\<close>), the
  interpreter's hash of a string (\<open>hash(key)\<close>, fixed within one process) and the first
  number in \<open>[0, 1)\<close> that \<open>random.Random(h)\<close> draws.\<close>

record world =
  clock :: timestamp
  str_hash :: "string \<Rightarrow> int"
  mt_random :: "int \<Rightarrow> real"

text \<open>A bool is an int in Python (\<open>True == 1\<close>): a number is an int or a bool.\<close>

fun py_num :: "pyval \<Rightarrow> int option" where
  "py_num (PInt i) = Some i"
| "py_num (PBool b) = Some (if b then 1 else 0)"
| "py_num v = None"

text \<open>\<open>v op n\<close> for an order comparison of a value with an int raises TypeError unless
  the value is a number.\<close>

definition cmp_error :: "string \<Rightarrow> pyval \<Rightarrow> exn" where
  "cmp_error opr v = TypeError ([CHR 0x27] @ opr @ [CHR 0x27] @
     '' not supported between instances of '' @ [CHR 0x27] @ type_name v @ [CHR 0x27] @
     '' and '' @ [CHR 0x27] @ ''int'' @ [CHR 0x27])"

text \<open>\<open>(service, namespace) in env.deployments\<close>: the keys are pairs of strings, and a
  value that is not a string equals no string.\<close>

fun find_deployment :: "env_state \<Rightarrow> pyval \<Rightarrow> pyval \<Rightarrow> ((string \<times> string) \<times> deployment) option" where
  "find_deployment env (PStr svc) (PStr ns) =
     (case deployments env (svc, ns) of None \<Rightarrow> None | Some dep \<Rightarrow> Some ((svc, ns), dep))"
| "find_deployment env svc ns = None"

definition failure :: "string \<Rightarrow> tool_result" where
  "failure msg = \<lparr>ok = False, data = None, error = Some msg\<rparr>"

definition success :: "(string \<times> dval) list \<Rightarrow> tool_result" where
  "success d = \<lparr>ok = True, data = Some d, error = None\<rparr>"

definition unknown_deployment :: "pyval \<Rightarrow> pyval \<Rightarrow> tool_result" where
  "unknown_deployment svc ns = failure (''unknown deployment: '' @ py_str svc @ '' in '' @ py_str ns)"

text \<open>\<open>_rng(env, key)\<close>: the generator seeded with \<open>hash(key) ^ env.seed\<close>; its first
  draw.\<close>

definition rng :: "world \<Rightarrow> env_state \<Rightarrow> string \<Rightarrow> real" where
  "rng w env key = mt_random w (xor (str_hash w key) (seed env))"

text \<open>\<open>rnd.uniform(a, b)\<close> is \<open>a + (b - a) * rnd.random()\<close>.\<close>

definition uniform :: "real \<Rightarrow> double \<Rightarrow> double \<Rightarrow> double" where
  "uniform r a b = fadd a (fmul (fsub b a) (Finite r))"

text \<open>The three metric models of \<open>metrics_query\<close>: the value, the status tier and the
  recommendation, from the replica count (as a float and as the int), and the draw.\<close>

definition error_rate_metric :: "real \<Rightarrow> double \<Rightarrow> double \<times> string \<times> string" where
  "error_rate_metric r reps =
     (let base = py_max (fl 0.005) (fsub (fl 0.06) (fmul (fl 0.006) reps));
          noise = uniform r (fneg (fl 0.003)) (fl 0.003);
          val = py_max (Finite 0) (fadd base noise) in
      if flt val (fl 0.015) then (val, ''good'', ''Error rate is acceptable'')
      else if flt val (fl 0.025)
      then (val, ''acceptable'', ''Error rate improved but could be better'')
      else (val, ''concerning'', ''Error rate still high, consider further scaling''))"

definition latency_metric :: "real \<Rightarrow> double \<Rightarrow> double \<times> string \<times> string" where
  "latency_metric r reps =
     (let base = py_max (Finite 80) (fsub (Finite 300) (fmul (Finite 20) reps));
          noise = uniform r (fneg (Finite 10)) (Finite 10);
          val = py_max (Finite 0) (fadd base noise) in
      if flt val (Finite 120) then (val, ''good'', ''Latency is acceptable'')
      else if flt val (Finite 200)
      then (val, ''acceptable'', ''Latency improved but could be better'')
      else (val, ''concerning'', ''Latency still high, consider further scaling''))"

definition qps_metric :: "real \<Rightarrow> double \<Rightarrow> int \<Rightarrow> double \<times> string \<times> string" where
  "qps_metric r reps n =
     (let base = fmul (Finite 50) reps;
          noise = uniform r (fneg (Finite 10)) (Finite 10);
          val = py_max (Finite 0) (fadd base noise) in
      (val, ''info'', ''Current throughput with '' @ str_int n @ '' replicas''))"

text \<open>Every branch of \<open>metrics_query\<close> multiplies a float by the replica count, which
  converts the int first; the conversion is the one place where the tool can raise after
  its checks.\<close>

definition metrics_query ::
  "world \<Rightarrow> env_state \<Rightarrow> pyval \<Rightarrow> pyval \<Rightarrow> pyval \<Rightarrow> pyval \<Rightarrow> exn + tool_result \<times> env_state" where
  "metrics_query w env svc metric minutes ns =
     (if metric \<notin> {PStr ''latency_p95'', PStr ''error_rate'', PStr ''qps''}
      then Inr (failure (''invalid metric: '' @ py_str metric), env)
      else case py_num minutes of
        None \<Rightarrow> Inl (cmp_error ''<='' minutes)
      | Some m \<Rightarrow>
          if m \<le> 0 \<or> m > 120
          then Inr (failure (''minutes out of range: '' @ py_str minutes), env)
          else case find_deployment env svc ns of
            None \<Rightarrow> Inr (unknown_deployment svc ns, env)
          | Some (key, dep) \<Rightarrow>
              (let r = rng w env (py_str svc @ '':'' @ py_str ns @ '':'' @ py_str metric @ '':'' @ py_str minutes) in
               case int_to_double (replicas dep) of
                 Inl x \<Rightarrow> Inl x
               | Inr reps \<Rightarrow>
                   (let (val, st, recommendation) =
                      (if metric = PStr ''error_rate'' then error_rate_metric r reps
                       else if metric = PStr ''latency_p95'' then latency_metric r reps
                       else qps_metric r reps (replicas dep))
                    in Inr (success [(''metric'', DVal metric), (''minutes'', DVal minutes),
                          (''value'', DFloat val), (''status'', DVal (PStr st)),
                          (''recommendation'', DVal (PStr recommendation))], env))))"

text \<open>\<open>k8s_scale\<close> stores the number it compared; a bool is stored as the int it equals
  (\<open>True\<close> as \<open>1\<close>), which differs from it only in its printed form.\<close>

definition k8s_scale ::
  "world \<Rightarrow> env_state \<Rightarrow> pyval \<Rightarrow> pyval \<Rightarrow> pyval \<Rightarrow> exn + tool_result \<times> env_state" where
  "k8s_scale w env svc reps ns =
     (case py_num reps of
        None \<Rightarrow> Inl (cmp_error ''<'' reps)
      | Some n \<Rightarrow>
          if n < 1 \<or> n > 100
          then Inr (failure (''replicas out of range: '' @ py_str reps), env)
          else case find_deployment env svc ns of
            None \<Rightarrow> Inr (unknown_deployment svc ns, env)
          | Some (key, dep) \<Rightarrow>
              Inr (success [(''service'', DVal svc), (''namespace'', DVal ns), (''replicas'', DVal reps)],
                   env\<lparr>deployments := (deployments env)(key \<mapsto> dep\<lparr>replicas := n\<rparr>)\<rparr>))"

definition k8s_restart ::
  "world \<Rightarrow> env_state \<Rightarrow> pyval \<Rightarrow> pyval \<Rightarrow> exn + tool_result \<times> env_state" where
  "k8s_restart w env svc ns =
     (case find_deployment env svc ns of
        None \<Rightarrow> Inr (unknown_deployment svc ns, env)
      | Some (key, dep) \<Rightarrow>
          Inr (success [(''service'', DVal svc), (''namespace'', DVal ns),
                 (''restarted_at'', DFloat (Finite (clock w)))],
               env\<lparr>deployments := (deployments env)(key \<mapsto> dep\<lparr>restarted_at := Some (clock w)\<rparr>)\<rparr>))"

text \<open>A dict key: \<open>True\<close> and \<open>1\<close> (and \<open>False\<close> and \<open>0\<close>) are the same key.\<close>

fun py_key :: "pyval \<Rightarrow> pyval" where
  "py_key (PBool b) = PInt (if b then 1 else 0)"
| "py_key v = v"

definition feature_flag_set ::
  "world \<Rightarrow> env_state \<Rightarrow> pyval \<Rightarrow> pyval \<Rightarrow> exn + tool_result \<times> env_state" where
  "feature_flag_set w env flag enabled =
     Inr (success [(''flag'', DVal flag), (''enabled'', DVal enabled)],
          env\<lparr>feature_flags := (feature_flags env)(py_key flag \<mapsto> enabled)\<rparr>)"

definition incident_log ::
  "world \<Rightarrow> env_state \<Rightarrow> pyval \<Rightarrow> pyval \<Rightarrow> exn + tool_result \<times> env_state" where
  "incident_log w env msg sev =
     (case sev of
        PStr s \<Rightarrow>
          if s \<notin> {''info'', ''warning'', ''critical''}
          then Inr (failure (''invalid severity: '' @ py_str sev), env)
          else Inr (success [(''ts'', DFloat (Finite (clock w))), (''severity'', DVal sev),
                      (''message'', DVal msg)],
                    env\<lparr>incident_log_entries := incident_log_entries env @
                      [\<lparr>ts = clock w, severity = s, message = msg\<rparr>]\<rparr>)
      | _ \<Rightarrow> Inr (failure (''invalid severity: '' @ py_str sev), env))"

definition ticket_update ::
  "world \<Rightarrow> env_state \<Rightarrow> pyval \<Rightarrow> pyval \<Rightarrow> exn + tool_result \<times> env_state" where
  "ticket_update w env st nt =
     (case st of
        PStr s \<Rightarrow>
          if s \<notin> {''open'', ''investigating'', ''mitigated'', ''resolved''}
          then Inr (failure (''invalid status: '' @ py_str st), env)
          else Inr (success [(''status'', DVal st), (''note'', DVal nt)],
                    env\<lparr>env_ticket := (env_ticket env)\<lparr>status := s, ticket_note := nt\<rparr>\<rparr>)
      | _ \<Rightarrow> Inr (failure (''invalid status: '' @ py_str st), env))"

section \<open>The harness (harness.py)\<close>

record tool_call =
  name :: string
  arguments :: "(string \<times> pyval) list"

text \<open>
  The arguments of a call are a dict: a list of pairs with distinct keys.
  \<open>fn(env=env, **call.arguments)\<close> binds the arguments to the parameters of \<open>fn\<close> by
  name. The call raises TypeError when the arguments hold \<open>env\<close> again, a name that is
  no parameter, or not every parameter (no parameter has a default). The messages are
  the interpreter's.
\<close>

definition quoted :: "string \<Rightarrow> string" where
  "quoted s = [CHR 0x27] @ s @ [CHR 0x27]"

fun and_list :: "string list \<Rightarrow> string" where
  "and_list [] = []"
| "and_list [a] = quoted a"
| "and_list [a, b] = quoted a @ '' and '' @ quoted b"
| "and_list [a, b, c] = quoted a @ '', '' @ quoted b @ '', and '' @ quoted c"
| "and_list (a # bs) = quoted a @ '', '' @ and_list bs"

definition bind_kwargs :: "string \<Rightarrow> string list \<Rightarrow> (string \<times> pyval) list \<Rightarrow> exn + (string \<Rightarrow> pyval)" where
  "bind_kwargs fname params kwargs =
     (let keys = map fst kwargs;
          unexpected = filter (\<lambda>k. k \<notin> set params) keys;
          missing = filter (\<lambda>p. p \<notin> set keys) params in
      if ''env'' \<in> set keys
      then Inl (TypeError (fname @ ''() got multiple values for keyword argument '' @ quoted ''env''))
      else if unexpected \<noteq> []
      then Inl (TypeError (fname @ ''() got an unexpected keyword argument '' @ quoted (hd unexpected)))
      else if missing \<noteq> []
      then Inl (TypeError (fname @ ''() missing '' @ str_int (int (length missing)) @
             '' required positional argument'' @ (if length missing = 1 then [] else ''s'') @
             '': '' @ and_list missing))
      else Inr (\<lambda>p. case map_of kwargs p of Some v \<Rightarrow> v | None \<Rightarrow> PNone))"

type_synonym tool = "world \<Rightarrow> env_state \<Rightarrow> (string \<times> pyval) list \<Rightarrow> exn + tool_result \<times> env_state"

definition call_metrics_query :: tool where
  "call_metrics_query w env kwargs =
     (case bind_kwargs ''metrics_query'' [''service'', ''metric'', ''minutes'', ''namespace''] kwargs of
        Inl x \<Rightarrow> Inl x
      | Inr a \<Rightarrow> metrics_query w env (a ''service'') (a ''metric'') (a ''minutes'') (a ''namespace''))"

definition call_k8s_scale :: tool where
  "call_k8s_scale w env kwargs =
     (case bind_kwargs ''k8s_scale'' [''service'', ''replicas'', ''namespace''] kwargs of
        Inl x \<Rightarrow> Inl x
      | Inr a \<Rightarrow> k8s_scale w env (a ''service'') (a ''replicas'') (a ''namespace''))"

definition call_k8s_restart :: tool where
  "call_k8s_restart w env kwargs =
     (case bind_kwargs ''k8s_restart'' [''service'', ''namespace''] kwargs of
        Inl x \<Rightarrow> Inl x
      | Inr a \<Rightarrow> k8s_restart w env (a ''service'') (a ''namespace''))"

definition call_feature_flag_set :: tool where
  "call_feature_flag_set w env kwargs =
     (case bind_kwargs ''feature_flag_set'' [''flag'', ''enabled''] kwargs of
        Inl x \<Rightarrow> Inl x
      | Inr a \<Rightarrow> feature_flag_set w env (a ''flag'') (a ''enabled''))"

definition call_incident_log :: tool where
  "call_incident_log w env kwargs =
     (case bind_kwargs ''incident_log'' [''message'', ''severity''] kwargs of
        Inl x \<Rightarrow> Inl x
      | Inr a \<Rightarrow> incident_log w env (a ''message'') (a ''severity''))"

definition call_ticket_update :: tool where
  "call_ticket_update w env kwargs =
     (case bind_kwargs ''ticket_update'' [''status'', ''note''] kwargs of
        Inl x \<Rightarrow> Inl x
      | Inr a \<Rightarrow> ticket_update w env (a ''status'') (a ''note''))"

definition TOOL_REGISTRY :: "string \<rightharpoonup> tool" where
  "TOOL_REGISTRY =
     [''metrics_query'' \<mapsto> call_metrics_query,
      ''k8s_scale'' \<mapsto> call_k8s_scale,
      ''k8s_restart'' \<mapsto> call_k8s_restart,
      ''feature_flag_set'' \<mapsto> call_feature_flag_set,
      ''incident_log'' \<mapsto> call_incident_log,
      ''ticket_update'' \<mapsto> call_ticket_update]"

text \<open>\<open>f"{e}"\<close> of an exception is its message.\<close>

fun exn_message :: "exn \<Rightarrow> string" where
  "exn_message (TypeError m) = m"
| "exn_message (OverflowError m) = m"

text \<open>\<open>exec_tool\<close> returns the result dict; the environment it returns is the one the
  tool left (no tool changes it before it raises).\<close>

definition exec_tool :: "world \<Rightarrow> env_state \<Rightarrow> tool_call \<Rightarrow> tool_result \<times> env_state" where
  "exec_tool w env call =
     (case TOOL_REGISTRY (name call) of
        None \<Rightarrow> (failure (''unknown tool: '' @ name call), env)
      | Some fn \<Rightarrow>
          (case fn w env (arguments call) of
             Inr (res, env') \<Rightarrow> (res, env')
           | Inl (TypeError e) \<Rightarrow> (failure (''argument error: '' @ e), env)
           | Inl e \<Rightarrow> (failure (''runtime error: '' @ exn_message e), env)))"

text \<open>The initial state of a scenario: a list of deployments (the replica count is
  optional), the feature flags and, optionally, the ticket. An entry of the list has the
  keys \<open>service\<close> and \<open>namespace\<close>, strings, and its replica count is an int: an entry
  without them, on which \<open>build_env\<close> raises, is outside this type.\<close>

record dep_item =
  item_service :: string
  item_namespace :: string
  item_replicas :: "int option"

record ticket_init =
  init_status :: "string option"
  init_note :: "string option"

record initial_state =
  init_deployments :: "dep_item list"
  init_feature_flags :: "(string \<times> pyval) list"
  init_ticket :: "ticket_init option"

fun build_deployments :: "env_state \<Rightarrow> dep_item list \<Rightarrow> env_state" where
  "build_deployments env [] = env"
| "build_deployments env (item # items) =
     build_deployments
       (env\<lparr>deployments := (deployments env)((item_service item, item_namespace item) \<mapsto>
          \<lparr>service = item_service item, namespace = item_namespace item,
           replicas = (case item_replicas item of None \<Rightarrow> 1 | Some n \<Rightarrow> n),
           restarted_at = None\<rparr>)\<rparr>)
       items"

fun build_flags :: "env_state \<Rightarrow> (string \<times> pyval) list \<Rightarrow> env_state" where
  "build_flags env [] = env"
| "build_flags env ((k, v) # kvs) =
     build_flags (env\<lparr>feature_flags := (feature_flags env)(PStr k \<mapsto> PBool (truthy v))\<rparr>) kvs"

definition build_ticket :: "env_state \<Rightarrow> ticket_init option \<Rightarrow> env_state" where
  "build_ticket env t =
     (case t of
        None \<Rightarrow> env
      | Some ti \<Rightarrow>
          env\<lparr>env_ticket := \<lparr>status = (case init_status ti of None \<Rightarrow> status (env_ticket env) | Some s \<Rightarrow> s),
                          ticket_note = (case init_note ti of None \<Rightarrow> ticket_note (env_ticket env)
                                         | Some n \<Rightarrow> PStr n)\<rparr>\<rparr>)"

definition build_env :: "initial_state \<Rightarrow> env_state" where
  "build_env init =
     build_ticket (build_flags (build_deployments EnvState (init_deployments init))
       (init_feature_flags init)) (init_ticket init)"

record trace_entry =
  step :: nat
  call :: tool_call
  result :: tool_result

record execution_trace =
  tool_calls :: "trace_entry list"

text \<open>The loop of \<open>run_sequence\<close>, from index \<open>i\<close>: it stops at \<open>max_steps\<close> calls. The
  world of step \<open>i\<close> is \<open>world_at i\<close>.\<close>

fun run_calls ::
  "(nat \<Rightarrow> world) \<Rightarrow> nat \<Rightarrow> nat \<Rightarrow> env_state \<Rightarrow> tool_call list \<Rightarrow> trace_entry list \<times> env_state" where
  "run_calls world_at max_steps i env [] = ([], env)"
| "run_calls world_at max_steps i env (c # cs) =
     (if i \<ge> max_steps then ([], env)
      else
        (let (res, env') = exec_tool (world_at i) env c;
             (tr, env'') = run_calls world_at max_steps (i + 1) env' cs in
         (\<lparr>step = i + 1, call = c, result = res\<rparr> # tr, env'')))"

text \<open>\<open>run_sequence\<close> returns the trace; the environment, which the calls change in
  place, is returned with it (the \<open>final\<close> snapshot of the trace is a copy of its parts).\<close>

definition run_sequence ::
  "(nat \<Rightarrow> world) \<Rightarrow> env_state \<Rightarrow> tool_call list \<Rightarrow> nat \<Rightarrow> execution_trace \<times> env_state" where
  "run_sequence world_at env sequence max_steps =
     (let (tr, env') = run_calls world_at max_steps 0 env sequence in (\<lparr>tool_calls = tr\<rparr>, env'))"

section \<open>Scoring (scoring.py)\<close>

text \<open>The acceptance criteria of a scenario. The deployment requirement is a dict, a
  list of pairs with distinct keys, whose values are JSON scalars; the substring and
  the status are strings. Each of the three is \<open>None\<close> when the key is absent or null.\<close>

type_synonym dep_req = "(string \<times> pyval) list"

record criteria =
  deployment :: "dep_req option"
  incident_log_contains :: "string option"
  ticket_status :: "string option"

record acceptance =
  valid :: bool
  reasons :: "string list"

text \<open>\<open>d.get(k)\<close>: \<open>None\<close> when the dict has no key \<open>k\<close>.\<close>

definition dict_get :: "(string \<times> pyval) list \<Rightarrow> string \<Rightarrow> pyval" where
  "dict_get d k = (case map_of d k of None \<Rightarrow> PNone | Some v \<Rightarrow> v)"

text \<open>\<open>gte is not None and reps < gte\<close>: the comparison of an int with a number, which
  raises TypeError on a string.\<close>

definition below :: "int \<Rightarrow> pyval \<Rightarrow> exn + bool" where
  "below reps gte =
     (if gte \<noteq> PNone then
        (case py_num gte of
           None \<Rightarrow> Inl (TypeError (quoted ''<'' @ '' not supported between instances of '' @
                     quoted ''int'' @ '' and '' @ quoted (type_name gte)))
         | Some g \<Rightarrow> Inr (reps < g))
      else Inr False)"

text \<open>The three blocks of \<open>check_acceptance\<close>; each takes \<open>(ok, reasons)\<close> and returns it
  or raises. \<open>if dep_req:\<close> holds of a dict that is not empty, whatever its keys are.\<close>

definition check_deployment ::
  "env_state \<Rightarrow> criteria \<Rightarrow> bool \<times> string list \<Rightarrow> exn + bool \<times> string list" where
  "check_deployment env c st =
     (case deployment c of
        None \<Rightarrow> Inr st
      | Some dep_req \<Rightarrow>
          if dep_req \<noteq> [] then
            (let svc = dict_get dep_req ''service''; ns = dict_get dep_req ''namespace'';
                 gte = dict_get dep_req ''replicas_gte'' in
             case find_deployment env svc ns of
               None \<Rightarrow> Inr (False, snd st @ [''missing deployment '' @ py_str svc @ '':'' @ py_str ns])
             | Some (key, dep) \<Rightarrow>
                 (let reps = replicas dep in
                  case below reps gte of
                    Inl x \<Rightarrow> Inl x
                  | Inr lt \<Rightarrow>
                      if lt
                      then Inr (False, snd st @ [''replicas '' @ str_int reps @ '' < '' @ py_str gte])
                      else Inr st))
          else Inr st)"

text \<open>\<open>any(log_contains in e.get("message", "") for e in env.incident_log)\<close>: the
  generator stops at the first entry that contains the substring, and raises at an
  entry whose message is not a string.\<close>

fun any_message_contains :: "string \<Rightarrow> log_entry list \<Rightarrow> exn + bool" where
  "any_message_contains s [] = Inr False"
| "any_message_contains s (e # es) =
     (case py_in s (message e) of
        Inl x \<Rightarrow> Inl x
      | Inr b \<Rightarrow> if b then Inr True else any_message_contains s es)"

definition check_log :: "env_state \<Rightarrow> criteria \<Rightarrow> bool \<times> string list \<Rightarrow> exn + bool \<times> string list" where
  "check_log env c st =
     (case incident_log_contains c of
        None \<Rightarrow> Inr st
      | Some log_contains \<Rightarrow>
          if log_contains \<noteq> [] then
            (case any_message_contains log_contains (incident_log_entries env) of
               Inl x \<Rightarrow> Inl x
             | Inr found \<Rightarrow>
                 if \<not> found then Inr (False, snd st @ [''incident log missing required message''])
                 else Inr st)
          else Inr st)"

definition check_ticket :: "env_state \<Rightarrow> criteria \<Rightarrow> bool \<times> string list \<Rightarrow> bool \<times> string list" where
  "check_ticket env c st =
     (case ticket_status c of
        None \<Rightarrow> st
      | Some required \<Rightarrow>
          if required \<noteq> [] then
            (if status (env_ticket env) \<noteq> required
             then (False, snd st @ [''ticket status '' @ status (env_ticket env) @ '' != '' @ required])
             else st)
          else st)"

definition check_acceptance :: "env_state \<Rightarrow> criteria \<Rightarrow> exn + acceptance" where
  "check_acceptance env c =
     (case check_deployment env c (True, []) of
        Inl x \<Rightarrow> Inl x
      | Inr st0 \<Rightarrow>
          (case check_log env c st0 of
             Inl x \<Rightarrow> Inl x
           | Inr st \<Rightarrow>
               (let st' = check_ticket env c st in Inr \<lparr>valid = fst st', reasons = snd st'\<rparr>)))"

definition check_technical_success :: "env_state \<Rightarrow> criteria \<Rightarrow> exn + acceptance" where
  "check_technical_success env c =
     (case check_deployment env c (True, []) of
        Inl x \<Rightarrow> Inl x
      | Inr st0 \<Rightarrow>
          (case check_log env c st0 of
             Inl x \<Rightarrow> Inl x
           | Inr st \<Rightarrow> Inr \<lparr>valid = fst st, reasons = snd st\<rparr>))"

record partial =
  tool_syntax_ok :: bool
  verification_performed :: bool
  incident_logged :: bool
  ticket_updated :: bool

text \<open>\<open>str(c.get("result", {}).get("error", ""))\<close>: the error of a dumped result is a
  string or \<open>None\<close>.\<close>

definition error_text :: "tool_result \<Rightarrow> string" where
  "error_text r = (case error r of None \<Rightarrow> ''None'' | Some e \<Rightarrow> e)"

definition is_arg_error :: "trace_entry \<Rightarrow> bool" where
  "is_arg_error c = (\<not> ok (result c) \<and> str_in ''argument error'' (error_text (result c)))"

text \<open>The loop of \<open>partial_credit\<close> over the calls; its state is
  \<open>(did_action, verification)\<close>.\<close>

fun verification_loop :: "bool \<times> bool \<Rightarrow> trace_entry list \<Rightarrow> bool \<times> bool" where
  "verification_loop st [] = st"
| "verification_loop (did_action, verification) (c # cs) =
     (let nm = name (call c);
          did_action = (if nm \<in> {''k8s_scale'', ''k8s_restart'', ''feature_flag_set''} then True else did_action);
          verification = (if did_action \<and> nm = ''metrics_query'' then True else verification)
      in verification_loop (did_action, verification) cs)"

definition partial_credit :: "execution_trace \<Rightarrow> partial" where
  "partial_credit trace =
     (let calls = tool_calls trace;
          any_arg_error = list_ex is_arg_error calls;
          incident_logged = list_ex (\<lambda>c. name (call c) = ''incident_log'') calls;
          ticket_updated = list_ex (\<lambda>c. name (call c) = ''ticket_update'') calls;
          (did_action, verification) = verification_loop (False, False) calls
      in \<lparr>tool_syntax_ok = \<not> any_arg_error,
          verification_performed = verification,
          incident_logged = incident_logged,
          ticket_updated = ticket_updated\<rparr>)"

record weights =
  w_technical_task :: double
  w_ticket_updated :: double
  w_incident_logged :: double
  w_verification :: double
  w_tool_syntax :: double

record breakdown =
  b_technical_task :: double
  b_ticket_updated :: double
  b_incident_logged :: double
  b_verification :: double
  b_tool_syntax :: double

record weighted_score =
  total_score :: double
  max_score :: double
  score_breakdown :: breakdown
  score_weights :: weights

definition score_weights_table :: weights where
  "score_weights_table =
     \<lparr>w_technical_task = fl 0.60, w_ticket_updated = fl 0.15, w_incident_logged = fl 0.15,
      w_verification = fl 0.05, w_tool_syntax = fl 0.05\<rparr>"

text \<open>\<open>1.0 if b else 0.0\<close>.\<close>

definition score_of :: "bool \<Rightarrow> double" where
  "score_of b = (if b then Finite 1 else Finite 0)"

text \<open>The acceptance result is a parameter that \<open>compute_weighted_score\<close> does not read.\<close>

definition compute_weighted_score :: "acceptance \<Rightarrow> partial \<Rightarrow> acceptance \<Rightarrow> weighted_score" where
  "compute_weighted_score acc part technical =
     (let ws = score_weights_table;
          technical_score = score_of (valid technical);
          ticket_score = score_of (ticket_updated part);
          incident_score = score_of (incident_logged part);
          verification_score = score_of (verification_performed part);
          syntax_score = score_of (tool_syntax_ok part);
          total =
            fadd (fadd (fadd (fadd
              (fmul technical_score (w_technical_task ws))
              (fmul ticket_score (w_ticket_updated ws)))
              (fmul incident_score (w_incident_logged ws)))
              (fmul verification_score (w_verification ws)))
              (fmul syntax_score (w_tool_syntax ws))
      in \<lparr>total_score = py_round1 (fmul total (Finite 100)),
          max_score = Finite 100,
          score_breakdown =
            \<lparr>b_technical_task = py_round1 (fmul (fmul technical_score (w_technical_task ws)) (Finite 100)),
             b_ticket_updated = py_round1 (fmul (fmul ticket_score (w_ticket_updated ws)) (Finite 100)),
             b_incident_logged = py_round1 (fmul (fmul incident_score (w_incident_logged ws)) (Finite 100)),
             b_verification = py_round1 (fmul (fmul verification_score (w_verification ws)) (Finite 100)),
             b_tool_syntax = py_round1 (fmul (fmul syntax_score (w_tool_syntax ws)) (Finite 100))\<rparr>,
          score_weights = ws\<rparr>)"

section \<open>A scenario to evaluate the definitions on\<close>

text \<open>The first end-to-end scenario of the specification: one deployment,
  \<open>checkout-service\<close> in \<open>prod\<close>, with two replicas. The world is a fixed clock, hash and
  generator.\<close>

definition world0 :: world where
  "world0 = \<lparr>clock = 0, str_hash = (\<lambda>s. 0), mt_random = (\<lambda>h. 0)\<rparr>"

definition checkout_initial :: initial_state where
  "checkout_initial = \<lparr>init_deployments =
       [\<lparr>item_service = ''checkout-service'', item_namespace = ''prod'', item_replicas = Some 2\<rparr>],
     init_feature_flags = [], init_ticket = None\<rparr>"

definition env_checkout :: env_state where
  "env_checkout = build_env checkout_initial"

definition scale_call :: "int \<Rightarrow> tool_call" where
  "scale_call n = \<lparr>name = ''k8s_scale'', arguments =
     [(''service'', PStr ''checkout-service''), (''replicas'', PInt n), (''namespace'', PStr ''prod'')]\<rparr>"

definition query_call :: tool_call where
  "query_call = \<lparr>name = ''metrics_query'', arguments =
     [(''service'', PStr ''checkout-service''), (''metric'', PStr ''error_rate''),
      (''minutes'', PInt 15), (''namespace'', PStr ''prod'')]\<rparr>"

lemma ilog2_aux_numeral:
  "ilog2_aux (numeral k) x =
     (if 2 \<le> x then ilog2_aux (pred_numeral k) (x / 2) + 1
      else if x < 1 then ilog2_aux (pred_numeral k) (2 * x) - 1
      else 0)"
  by (simp add: numeral_eq_Suc)

lemmas fl_eval = fl_def ilog2_def ilog2_aux_numeral round_half_even_def Let_def power_int_minus

lemmas tool_eval = exec_tool_def TOOL_REGISTRY_def call_k8s_scale_def call_metrics_query_def
  call_k8s_restart_def call_feature_flag_set_def call_incident_log_def call_ticket_update_def
  bind_kwargs_def k8s_scale_def failure_def success_def unknown_deployment_def
  str_int_def str_nat.simps digit_def

lemma env_checkout_eq:
  "env_checkout = EnvState\<lparr>deployments := [(''checkout-service'', ''prod'') \<mapsto>
     \<lparr>service = ''checkout-service'', namespace = ''prod'', replicas = 2, restarted_at = None\<rparr>]\<rparr>"
  by (simp add: env_checkout_def checkout_initial_def build_env_def build_ticket_def EnvState_def)

lemma run_sequence_one:
  "run_sequence wa env [c1] (Suc n) =
     (\<lparr>tool_calls = [\<lparr>step = 1, call = c1, result = fst (exec_tool (wa 0) env c1)\<rparr>]\<rparr>,
      snd (exec_tool (wa 0) env c1))"
  by (simp add: run_sequence_def case_prod_beta Let_def)

lemma run_sequence_two:
  "run_sequence wa env [c1, c2] (Suc (Suc n)) =
     (\<lparr>tool_calls =
        [\<lparr>step = 1, call = c1, result = fst (exec_tool (wa 0) env c1)\<rparr>,
         \<lparr>step = 2, call = c2, result = fst (exec_tool (wa 1) (snd (exec_tool (wa 0) env c1)) c2)\<rparr>]\<rparr>,
      snd (exec_tool (wa 1) (snd (exec_tool (wa 0) env c1)) c2))"
  by (simp add: run_sequence_def case_prod_beta Let_def)

lemma exec_scale_150:
  "exec_tool w env_checkout (scale_call 150) = (failure ''replicas out of range: 150'', env_checkout)"
  by (simp add: scale_call_def tool_eval)

text \<open>A log call whose message is the int 5, and the environment it leaves.\<close>

definition log_int_call :: tool_call where
  "log_int_call = \<lparr>name = ''incident_log'', arguments =
     [(''message'', PInt 5), (''severity'', PStr ''info'')]\<rparr>"

lemma exec_log_int:
  "snd (exec_tool world0 env_checkout log_int_call) =
     env_checkout\<lparr>incident_log_entries := [\<lparr>ts = 0, severity = ''info'', message = PInt 5\<rparr>]\<rparr>"
  by (simp add: log_int_call_def exec_tool_def TOOL_REGISTRY_def call_incident_log_def
      bind_kwargs_def incident_log_def world0_def env_checkout_eq EnvState_def)

section \<open>Facts about the rounding model\<close>

text \<open>The search finds the exponent: \<open>ilog2 x = e\<close> when \<open>2^e \<le> x < 2^(e+1)\<close>, for every
  exponent in its bound.\<close>

lemma ilog2_aux_exact:
  "0 < x \<Longrightarrow> 2 powi e \<le> x \<Longrightarrow> x < 2 powi (e + 1) \<Longrightarrow> nat \<bar>e\<bar> \<le> k \<Longrightarrow> ilog2_aux k x = e"
proof (induction k arbitrary: x e)
  case 0
  then show ?case by simp
next
  case (Suc k)
  have mono: "a \<le> b \<Longrightarrow> (2::real) powi a \<le> 2 powi b" for a b
    by (rule power_int_increasing) simp_all
  have up: "(2::real) powi (e + 1) = 2 powi e * 2"
    by (simp add: power_int_add)
  show ?case
  proof (cases "2 \<le> x")
    case True
    have "1 \<le> e"
    proof (rule ccontr)
      assume "\<not> 1 \<le> e"
      then have "e + 1 \<le> 1" by simp
      from mono[OF this] have "(2::real) powi (e + 1) \<le> 2" by simp
      with Suc.prems(3) True show False by simp
    qed
    have dn: "(2::real) powi e = 2 powi (e - 1) * 2"
      using power_int_add[of "2::real" "e - 1" 1] by simp
    have "ilog2_aux k (x / 2) = e - 1"
    proof (rule Suc.IH)
      show "0 < x / 2" using Suc.prems(1) by simp
      show "2 powi (e - 1) \<le> x / 2" using Suc.prems(2) dn by simp
      show "x / 2 < 2 powi (e - 1 + 1)" using Suc.prems(3) up by simp
      show "nat \<bar>e - 1\<bar> \<le> k" using Suc.prems(4) \<open>1 \<le> e\<close> by simp
    qed
    with True show ?thesis by simp
  next
    case False
    show ?thesis
    proof (cases "x < 1")
      case True
      have "e \<le> - 1"
      proof (rule ccontr)
        assume "\<not> e \<le> - 1"
        then have "0 \<le> e" by simp
        from mono[OF this] have "(1::real) \<le> 2 powi e" by simp
        with Suc.prems(2) True show False by simp
      qed
      have up2: "(2::real) powi (e + 1 + 1) = 2 powi (e + 1) * 2"
        using power_int_add[of "2::real" "e + 1" 1] by simp
      have "ilog2_aux k (2 * x) = e + 1"
      proof (rule Suc.IH)
        show "0 < 2 * x" using Suc.prems(1) by simp
        show "2 powi (e + 1) \<le> 2 * x" using Suc.prems(2) up by simp
        show "2 * x < 2 powi (e + 1 + 1)" using Suc.prems(3) up2 by simp
        show "nat \<bar>e + 1\<bar> \<le> k" using Suc.prems(4) \<open>e \<le> - 1\<close> by simp
      qed
      with True False show ?thesis by simp
    next
      case x1: False
      have "e = 0"
      proof (rule ccontr)
        assume "e \<noteq> 0"
        then consider "1 \<le> e" | "e + 1 \<le> 0" by linarith
        then show False
        proof cases
          case 1
          from mono[OF this] have "(2::real) \<le> 2 powi e" by simp
          with Suc.prems(2) False show False by simp
        next
          case 2
          from mono[OF this] have "(2::real) powi (e + 1) \<le> 1" by simp
          with Suc.prems(3) x1 show False by simp
        qed
      qed
      with False x1 show ?thesis by simp
    qed
  qed
qed

lemma ilog2_exact:
  "0 < x \<Longrightarrow> 2 powi e \<le> x \<Longrightarrow> x < 2 powi (e + 1) \<Longrightarrow> \<bar>e\<bar> \<le> 2200 \<Longrightarrow> ilog2 x = e"
  unfolding ilog2_def by (rule ilog2_aux_exact) simp_all

text \<open>The conversion of an int of \<open>2^1024\<close> or more raises OverflowError.\<close>

lemma ilog2_aux_le:
  "1 \<le> x \<Longrightarrow> 0 \<le> ilog2_aux k x \<and> 2 powi (ilog2_aux k x) \<le> x"
proof (induction k arbitrary: x)
  case 0
  then show ?case by simp
next
  case (Suc k)
  show ?case
  proof (cases "2 \<le> x")
    case True
    then have "1 \<le> x / 2" by simp
    from Suc.IH[OF this] have ih: "0 \<le> ilog2_aux k (x / 2)" "2 powi (ilog2_aux k (x / 2)) \<le> x / 2"
      by auto
    have "(2::real) powi (ilog2_aux k (x / 2) + 1) = 2 powi (ilog2_aux k (x / 2)) * 2"
      by (simp add: power_int_add)
    with ih True show ?thesis by simp
  next
    case False
    with Suc.prems show ?thesis by simp
  qed
qed

lemma round_half_even_ge: "of_int K \<le> z \<Longrightarrow> K \<le> round_half_even z"
proof -
  assume "of_int K \<le> z"
  then have "K \<le> \<lfloor>z\<rfloor>" by (simp add: le_floor_iff)
  then show ?thesis by (simp add: round_half_even_def Let_def)
qed

lemma round_scale_ge:
  assumes "2 ^ b \<le> x" and x1: "1 \<le> x"
  shows "2 ^ b \<le> real_of_int (round_half_even (x / 2 powi (ilog2 x - 52))) * 2 powi (ilog2 x - 52)"
proof -
  define e where "e = ilog2 x"
  define u :: real where "u = 2 powi (e - 52)"
  define m where "m = round_half_even (x / u)"
  from ilog2_aux_le[OF x1, of 2200] have e0: "0 \<le> e" and ex: "2 powi e \<le> x"
    by (simp_all add: e_def ilog2_def)
  have u0: "0 < u" by (simp add: u_def)
  have "2 ^ b \<le> of_int m * u"
  proof (cases "e - 52 \<le> int b")
    case True
    define K :: int where "K = 2 ^ nat (int b - (e - 52))"
    have Ku: "of_int K * u = 2 ^ b"
    proof -
      have "of_int K = (2::real) powi (int b - (e - 52))"
        using True by (simp add: K_def power_int_def)
      moreover have "(2::real) powi (int b - (e - 52)) * 2 powi (e - 52) =
          2 powi (int b - (e - 52) + (e - 52))"
        by (rule power_int_add[symmetric]) simp
      ultimately have "of_int K * u = (2::real) powi (int b)"
        unfolding u_def by simp
      then show ?thesis by simp
    qed
    then have "of_int K = 2 ^ b / u" using u0 by (simp add: field_simps)
    also have "\<dots> \<le> x / u" using assms u0 by (simp add: divide_right_mono)
    finally have "K \<le> m" unfolding m_def by (rule round_half_even_ge)
    then have "of_int K * u \<le> of_int m * u" using u0 by simp
    with Ku show ?thesis by simp
  next
    case False
    have "(2::real) powi (52 + (e - 52)) = 2 powi 52 * 2 powi (e - 52)"
      by (rule power_int_add) simp
    then have "(2::real) powi e = 2 powi 52 * 2 powi (e - 52)" by simp
    then have "2 powi 52 * u \<le> x" using ex by (simp add: u_def)
    then have "of_int 1 \<le> x / u" using u0 by (simp add: field_simps)
    then have "1 \<le> m" unfolding m_def by (rule round_half_even_ge)
    then have "u \<le> of_int m * u" using u0 by simp
    moreover have "(2::real) ^ b \<le> u"
    proof -
      have "(2::real) powi (int b) \<le> 2 powi (e - 52)"
        using False by (intro power_int_increasing) auto
      then show ?thesis by (simp add: u_def)
    qed
    ultimately show ?thesis by simp
  qed
  then show ?thesis by (simp add: m_def u_def e_def)
qed

lemma fl_overflow:
  assumes "2 ^ 1024 \<le> x"
  shows "fl x = PosInf"
proof -
  have "(1::real) \<le> 2 ^ 1024" by (rule one_le_power) simp
  from this assms have x1: "1 \<le> x" by (rule order_trans)
  from ilog2_aux_le[OF x1, of 2200] have e0: "0 \<le> ilog2 x"
    by (simp add: ilog2_def)
  let ?y = "real_of_int (round_half_even (x / 2 powi (ilog2 x - 52))) * 2 powi (ilog2 x - 52)"
  from round_scale_ge[OF assms x1] have y: "2 ^ 1024 \<le> ?y" .
  have "(0::real) \<le> 2 ^ 1024" by (rule zero_le_power) simp
  from this y have "0 \<le> ?y" by (rule order_trans)
  with y have "2 ^ 1024 \<le> \<bar>?y\<bar>" by (simp only: abs_of_nonneg)
  moreover have "x \<noteq> 0" "0 < x" "\<bar>x\<bar> = x" using x1 by auto
  moreover have "max (ilog2 x) (- 1022) = ilog2 x" using e0 by simp
  ultimately show ?thesis
    unfolding fl_def Let_def by (simp only: if_True if_False)
qed

lemma int_to_double_overflow:
  "2 ^ 1024 \<le> n \<Longrightarrow> int_to_double n = Inl (OverflowError ''int too large to convert to float'')"
proof -
  assume "2 ^ 1024 \<le> n"
  then have "(2::real) ^ 1024 \<le> of_int n"
    by (metis of_int_le_iff of_int_numeral of_int_power)
  from fl_overflow[OF this] show ?thesis by (simp add: int_to_double_def)
qed

text \<open>The rounding model on the sum that is not the float of its decimal:
  \<open>0.1 + 0.2\<close> is \<open>0.30000000000000004\<close>, not \<open>0.3\<close>.\<close>

lemma fl_tenth_plus_fifth:
  "fadd (fl 0.1) (fl 0.2) = Finite (1351079888211149 / 4503599627370496)"
  "fl 0.3 = Finite (5404319552844595 / 18014398509481984)"
  "fadd (fl 0.1) (fl 0.2) \<noteq> fl 0.3"
  by (simp_all add: fl_eval)

section \<open>Properties of the acceptance checks\<close>

text \<open>What the criteria of a scenario ask of a final state, in the words of the
  specification: the deployment exists with at least the required replicas, some log
  message contains the substring, the ticket has the required status.\<close>

fun is_str :: "pyval \<Rightarrow> bool" where
  "is_str (PStr s) = True"
| "is_str v = False"

definition messages_are_strings :: "env_state \<Rightarrow> bool" where
  "messages_are_strings env = list_all (\<lambda>e. is_str (message e)) (incident_log_entries env)"

fun given_name :: "pyval option \<Rightarrow> string option" where
  "given_name (Some (PStr s)) = Some s"
| "given_name v = None"

fun threshold_met :: "pyval option \<Rightarrow> int \<Rightarrow> bool" where
  "threshold_met None reps = True"
| "threshold_met (Some PNone) reps = True"
| "threshold_met (Some (PInt g)) reps = (g \<le> reps)"
| "threshold_met (Some (PBool b)) reps = ((if b then 1 else 0) \<le> reps)"
| "threshold_met (Some (PStr x)) reps = False"

definition deployment_holds :: "env_state \<Rightarrow> dep_req \<Rightarrow> bool" where
  "deployment_holds env d =
     (case given_name (map_of d ''service'') of
        None \<Rightarrow> False
      | Some s \<Rightarrow>
          (case given_name (map_of d ''namespace'') of
             None \<Rightarrow> False
           | Some n \<Rightarrow>
               (case deployments env (s, n) of
                  None \<Rightarrow> False
                | Some dep \<Rightarrow> threshold_met (map_of d ''replicas_gte'') (replicas dep))))"

definition log_holds :: "env_state \<Rightarrow> string \<Rightarrow> bool" where
  "log_holds env s =
     list_ex (\<lambda>e. case message e of PStr m \<Rightarrow> str_in s m | _ \<Rightarrow> False) (incident_log_entries env)"

definition ticket_holds :: "env_state \<Rightarrow> string \<Rightarrow> bool" where
  "ticket_holds env s = (status (env_ticket env) = s)"

text \<open>A criterion is unmet when it is specified, with a value that is truthy, and does
  not hold.\<close>

definition deployment_unmet :: "env_state \<Rightarrow> criteria \<Rightarrow> bool" where
  "deployment_unmet env c =
     (case deployment c of None \<Rightarrow> False | Some d \<Rightarrow> d \<noteq> [] \<and> \<not> deployment_holds env d)"

definition log_unmet :: "env_state \<Rightarrow> criteria \<Rightarrow> bool" where
  "log_unmet env c =
     (case incident_log_contains c of None \<Rightarrow> False | Some s \<Rightarrow> s \<noteq> [] \<and> \<not> log_holds env s)"

definition ticket_unmet :: "env_state \<Rightarrow> criteria \<Rightarrow> bool" where
  "ticket_unmet env c =
     (case ticket_status c of None \<Rightarrow> False | Some s \<Rightarrow> s \<noteq> [] \<and> \<not> ticket_holds env s)"

text \<open>The replica threshold of the criteria is a number, if there is one.\<close>

definition threshold_is_number :: "criteria \<Rightarrow> bool" where
  "threshold_is_number c =
     (case deployment c of
        None \<Rightarrow> True
      | Some d \<Rightarrow> (case map_of d ''replicas_gte'' of None \<Rightarrow> True | Some v \<Rightarrow> \<not> is_str v))"

lemma find_deployment_get:
  "find_deployment env (dict_get d k1) (dict_get d k2) =
     (case given_name (map_of d k1) of
        None \<Rightarrow> None
      | Some s \<Rightarrow>
          (case given_name (map_of d k2) of
             None \<Rightarrow> None
           | Some n \<Rightarrow> map_option (\<lambda>dep. ((s, n), dep)) (deployments env (s, n))))"
proof (cases "given_name (map_of d k1)")
  case None
  then have "\<forall>s. dict_get d k1 \<noteq> PStr s"
    by (cases "map_of d k1" rule: given_name.cases) (auto simp: dict_get_def)
  then have "find_deployment env (dict_get d k1) (dict_get d k2) = None"
    by (cases "dict_get d k1") auto
  with None show ?thesis by simp
next
  case (Some s)
  then have s: "dict_get d k1 = PStr s"
    by (cases "map_of d k1" rule: given_name.cases) (auto simp: dict_get_def)
  show ?thesis
  proof (cases "given_name (map_of d k2)")
    case None
    then have "\<forall>n. dict_get d k2 \<noteq> PStr n"
      by (cases "map_of d k2" rule: given_name.cases) (auto simp: dict_get_def)
    then have "find_deployment env (dict_get d k1) (dict_get d k2) = None"
      by (cases "dict_get d k2") (auto simp: s)
    with None Some show ?thesis by simp
  next
    case n: (Some n)
    then have "dict_get d k2 = PStr n"
      by (cases "map_of d k2" rule: given_name.cases) (auto simp: dict_get_def)
    with s Some n show ?thesis by (simp split: option.splits)
  qed
qed

lemma below_Inr:
  "below reps (dict_get d k) = Inr lt \<Longrightarrow> lt = (\<not> threshold_met (map_of d k) reps)"
  by (cases "(map_of d k, reps)" rule: threshold_met.cases)
     (auto simp: below_def dict_get_def split: if_splits)

lemma below_total:
  "(\<forall>x. map_of d k \<noteq> Some (PStr x)) \<Longrightarrow> \<exists>lt. below reps (dict_get d k) = Inr lt"
  by (cases "(map_of d k, reps)" rule: threshold_met.cases)
     (auto simp: below_def dict_get_def)

lemma below_met:
  "threshold_met (map_of d k) reps \<Longrightarrow> below reps (dict_get d k) = Inr False"
  by (cases "(map_of d k, reps)" rule: threshold_met.cases)
     (auto simp: below_def dict_get_def)

lemma check_deployment_cases:
  assumes "deployment c = Some d" and "d \<noteq> []"
  shows "check_deployment env c (b, rs) =
     (case given_name (map_of d ''service'') of
        None \<Rightarrow> Inr (False, rs @ [''missing deployment '' @ py_str (dict_get d ''service'') @ '':'' @
                    py_str (dict_get d ''namespace'')])
      | Some s \<Rightarrow>
          (case given_name (map_of d ''namespace'') of
             None \<Rightarrow> Inr (False, rs @ [''missing deployment '' @ py_str (dict_get d ''service'') @ '':'' @
                         py_str (dict_get d ''namespace'')])
           | Some n \<Rightarrow>
               (case deployments env (s, n) of
                  None \<Rightarrow> Inr (False, rs @ [''missing deployment '' @ py_str (dict_get d ''service'') @
                              '':'' @ py_str (dict_get d ''namespace'')])
                | Some dep \<Rightarrow>
                    (case below (replicas dep) (dict_get d ''replicas_gte'') of
                       Inl x \<Rightarrow> Inl x
                     | Inr lt \<Rightarrow>
                         if lt then Inr (False, rs @ [''replicas '' @ str_int (replicas dep) @ '' < '' @
                                     py_str (dict_get d ''replicas_gte'')])
                         else Inr (b, rs)))))"
  using assms
  by (simp add: check_deployment_def Let_def find_deployment_get split: option.splits sum.splits)

lemma check_deployment_Inr:
  assumes "check_deployment env c (b, rs) = Inr st"
  shows "fst st = (b \<and> \<not> deployment_unmet env c) \<and>
     length (snd st) = length rs + (if deployment_unmet env c then 1 else 0)"
proof (cases "deployment c")
  case None
  with assms show ?thesis by (auto simp: check_deployment_def deployment_unmet_def)
next
  case (Some d)
  show ?thesis
  proof (cases "d = []")
    case True
    with Some assms show ?thesis by (auto simp: check_deployment_def deployment_unmet_def)
  next
    case False
    have u: "deployment_unmet env c = (\<not> deployment_holds env d)"
      using Some False by (simp add: deployment_unmet_def)
    from assms show ?thesis
      unfolding check_deployment_cases[OF Some False] u deployment_holds_def
      by (auto split: option.splits sum.splits if_splits dest: below_Inr)
  qed
qed

lemma check_deployment_total:
  assumes "threshold_is_number c"
  shows "\<exists>st. check_deployment env c (b, rs) = Inr st"
proof (cases "deployment c")
  case None
  then show ?thesis by (simp add: check_deployment_def)
next
  case (Some d)
  show ?thesis
  proof (cases "d = []")
    case True
    with Some show ?thesis by (simp add: check_deployment_def)
  next
    case False
    from assms Some have "\<forall>x. map_of d ''replicas_gte'' \<noteq> Some (PStr x)"
      by (auto simp: threshold_is_number_def)
    then have lt: "\<exists>lt. below reps (dict_get d ''replicas_gte'') = Inr lt" for reps
      by (rule below_total)
    show ?thesis
    proof (cases "given_name (map_of d ''service'')")
      case None
      then show ?thesis by (auto simp: check_deployment_cases[OF Some False])
    next
      case s: (Some s)
      show ?thesis
      proof (cases "given_name (map_of d ''namespace'')")
        case None
        with s show ?thesis by (auto simp: check_deployment_cases[OF Some False])
      next
        case n: (Some n)
        show ?thesis
        proof (cases "deployments env (s, n)")
          case None
          with s n show ?thesis by (auto simp: check_deployment_cases[OF Some False])
        next
          case dep: (Some dep)
          from lt[of "replicas dep"] obtain b' where
            "below (replicas dep) (dict_get d ''replicas_gte'') = Inr b'" by blast
          with s n dep show ?thesis by (auto simp: check_deployment_cases[OF Some False])
        qed
      qed
    qed
  qed
qed

lemma check_deployment_met:
  assumes "\<not> deployment_unmet env c"
  shows "check_deployment env c (b, rs) = Inr (b, rs)"
proof (cases "deployment c")
  case None
  then show ?thesis by (simp add: check_deployment_def)
next
  case (Some d)
  show ?thesis
  proof (cases "d = []")
    case True
    with Some show ?thesis by (simp add: check_deployment_def)
  next
    case False
    with assms Some have "deployment_holds env d"
      by (simp add: deployment_unmet_def)
    then show ?thesis
      unfolding check_deployment_cases[OF Some False] deployment_holds_def
      by (auto split: option.splits simp: below_met)
  qed
qed

lemma any_message_contains_Inr:
  "any_message_contains s es = Inr b \<Longrightarrow>
     b = list_ex (\<lambda>e. case message e of PStr m \<Rightarrow> str_in s m | _ \<Rightarrow> False) es"
proof (induction es)
  case Nil
  then show ?case by simp
next
  case (Cons e es)
  then show ?case by (cases "message e") (auto split: if_splits)
qed

lemma any_message_contains_total:
  "list_all (\<lambda>e. is_str (message e)) es \<Longrightarrow> \<exists>b. any_message_contains s es = Inr b"
proof (induction es)
  case Nil
  then show ?case by auto
next
  case (Cons e es)
  then show ?case by (cases "message e") auto
qed

lemma check_log_Inr:
  "check_log env c (b, rs) = Inr st \<Longrightarrow>
     fst st = (b \<and> \<not> log_unmet env c) \<and>
     length (snd st) = length rs + (if log_unmet env c then 1 else 0)"
  by (auto simp: check_log_def log_unmet_def log_holds_def
      split: option.splits if_splits sum.splits dest: any_message_contains_Inr)

lemma check_log_total:
  "messages_are_strings env \<Longrightarrow> \<exists>st. check_log env c (b, rs) = Inr st"
proof (cases "incident_log_contains c")
  case None
  then show ?thesis by (simp add: check_log_def)
next
  case (Some s)
  assume "messages_are_strings env"
  then obtain f where "any_message_contains s (incident_log_entries env) = Inr f"
    using any_message_contains_total[of "incident_log_entries env" s]
    by (auto simp: messages_are_strings_def)
  with Some show ?thesis by (auto simp: check_log_def)
qed

lemma check_ticket_fst:
  "fst (check_ticket env c (b, rs)) = (b \<and> \<not> ticket_unmet env c)"
  by (auto simp: check_ticket_def ticket_unmet_def ticket_holds_def split: option.splits)

lemma check_ticket_len:
  "length (snd (check_ticket env c (b, rs))) = length rs + (if ticket_unmet env c then 1 else 0)"
  by (auto simp: check_ticket_def ticket_unmet_def ticket_holds_def split: option.splits)

definition unmet_count :: "env_state \<Rightarrow> criteria \<Rightarrow> nat" where
  "unmet_count env c =
     (if deployment_unmet env c then 1 else 0) + (if log_unmet env c then 1 else 0) +
     (if ticket_unmet env c then 1 else 0)"

lemma acc_Inr:
  assumes "check_acceptance env c = Inr r"
  shows "valid r = (\<not> deployment_unmet env c \<and> \<not> log_unmet env c \<and> \<not> ticket_unmet env c)"
    and "length (reasons r) = unmet_count env c"
proof -
  from assms obtain st0 st where d: "check_deployment env c (True, []) = Inr st0"
    and l: "check_log env c st0 = Inr st"
    and r: "r = \<lparr>valid = fst (check_ticket env c st), reasons = snd (check_ticket env c st)\<rparr>"
    by (auto simp: check_acceptance_def Let_def split: sum.splits)
  obtain b rs where st0: "st0 = (b, rs)" by (cases st0)
  from check_deployment_Inr[OF d] st0 have b: "b = (\<not> deployment_unmet env c)"
    and lrs: "length rs = (if deployment_unmet env c then 1 else 0)" by auto
  obtain b2 rs2 where st: "st = (b2, rs2)" by (cases st)
  from check_log_Inr[OF l[unfolded st0]] st have b2: "b2 = (b \<and> \<not> log_unmet env c)"
    and lrs2: "length rs2 = length rs + (if log_unmet env c then 1 else 0)" by auto
  show "valid r = (\<not> deployment_unmet env c \<and> \<not> log_unmet env c \<and> \<not> ticket_unmet env c)"
    by (simp add: r st check_ticket_fst b2 b)
  show "length (reasons r) = unmet_count env c"
    by (simp add: r st check_ticket_len lrs2 lrs unmet_count_def)
qed

lemma acc_total:
  assumes "messages_are_strings env" and "threshold_is_number c"
  shows "\<exists>r. check_acceptance env c = Inr r"
proof -
  from check_deployment_total[OF assms(2)]
  obtain st0 where d: "check_deployment env c (True, []) = Inr st0" by blast
  from check_log_total[OF assms(1), of c "fst st0" "snd st0"]
  obtain st where "check_log env c st0 = Inr st" by auto
  with d show ?thesis by (simp add: check_acceptance_def Let_def)
qed

definition criteria_hold_as_given :: "env_state \<Rightarrow> criteria \<Rightarrow> bool" where
  "criteria_hold_as_given env c =
     ((case deployment c of None \<Rightarrow> True | Some d \<Rightarrow> deployment_holds env d) \<and>
      (case incident_log_contains c of None \<Rightarrow> True | Some s \<Rightarrow> log_holds env s) \<and>
      (case ticket_status c of None \<Rightarrow> True | Some s \<Rightarrow> ticket_holds env s))"

definition env_mitigated :: env_state where
  "env_mitigated = \<lparr>deployments = [(''checkout-service'', ''prod'') \<mapsto>
        \<lparr>service = ''checkout-service'', namespace = ''prod'', replicas = 6, restarted_at = None\<rparr>],
     feature_flags = Map.empty,
     env_ticket = \<lparr>status = ''mitigated'', ticket_note = PStr ''scaled and verified''\<rparr>,
     incident_log_entries = [\<lparr>ts = 0, severity = ''warning'',
        message = PStr ''scaled checkout-service to mitigate errors''\<rparr>],
     seed = 42\<rparr>"

definition criteria_scaled :: "string \<Rightarrow> criteria" where
  "criteria_scaled st = \<lparr>deployment = Some [(''service'', PStr ''checkout-service''),
        (''namespace'', PStr ''prod''), (''replicas_gte'', PInt 5)],
     incident_log_contains = Some ''scaled checkout-service'',
     ticket_status = Some st\<rparr>"

lemmas scoring_eval_defs =
  check_acceptance_def check_technical_success_def check_log_def check_deployment_def
  check_ticket_def below_def dict_get_def Let_def

text \<open>
  C1, as amended. A criterion counts as specified when its value is truthy: a deployment
  requirement that is a non-empty dict, a substring and a status that are non-empty
  strings; a criterion that is absent, null or empty is satisfied. Whenever
  \<open>check_acceptance\<close> returns, \<open>valid\<close> is true if and only if no specified criterion is
  unmet, and the reasons are one string for each unmet criterion. It returns whenever
  every log message of the state is a string and the replica threshold of the criteria,
  if there is one, is a number.
\<close>

theorem check_acceptance_valid_iff:
  "(messages_are_strings env \<and> threshold_is_number c \<longrightarrow> (\<exists>r. check_acceptance env c = Inr r)) \<and>
   (\<forall>r. check_acceptance env c = Inr r \<longrightarrow>
      (valid r \<longleftrightarrow> \<not> deployment_unmet env c \<and> \<not> log_unmet env c \<and> \<not> ticket_unmet env c) \<and>
      length (reasons r) = unmet_count env c)"
proof (intro conjI impI allI)
  assume "messages_are_strings env \<and> threshold_is_number c"
  then show "\<exists>r. check_acceptance env c = Inr r"
    using acc_total by blast
next
  fix r assume "check_acceptance env c = Inr r"
  then show "valid r \<longleftrightarrow> \<not> deployment_unmet env c \<and> \<not> log_unmet env c \<and> \<not> ticket_unmet env c"
    by (rule acc_Inr(1))
next
  fix r assume "check_acceptance env c = Inr r"
  then show "length (reasons r) = unmet_count env c"
    by (rule acc_Inr(2))
qed

text \<open>The theorem at the state of the first end-to-end scenario, with a ticket status
  that the criteria do not ask for.\<close>

theorem check_acceptance_valid_iff_witness:
  "messages_are_strings env_mitigated \<and> threshold_is_number (criteria_scaled ''resolved'') \<and>
   (\<exists>r. check_acceptance env_mitigated (criteria_scaled ''resolved'') = Inr r \<and> \<not> valid r \<and>
      reasons r = [''ticket status mitigated != resolved''] \<and>
      unmet_count env_mitigated (criteria_scaled ''resolved'') = 1 \<and>
      ticket_unmet env_mitigated (criteria_scaled ''resolved''))"
proof -
  have m: "messages_are_strings env_mitigated"
    by (simp add: messages_are_strings_def env_mitigated_def)
  have n: "threshold_is_number (criteria_scaled ''resolved'')"
    by (simp add: threshold_is_number_def criteria_scaled_def)
  have e: "check_acceptance env_mitigated (criteria_scaled ''resolved'') =
      Inr \<lparr>valid = False, reasons = [''ticket status mitigated != resolved'']\<rparr>"
    by (simp add: env_mitigated_def criteria_scaled_def scoring_eval_defs)
  have t: "ticket_unmet env_mitigated (criteria_scaled ''resolved'')"
    by (simp add: ticket_unmet_def ticket_holds_def env_mitigated_def criteria_scaled_def)
  from check_acceptance_valid_iff[of env_mitigated "criteria_scaled ''resolved''"] e
  have "length [''ticket status mitigated != resolved''] =
      unmet_count env_mitigated (criteria_scaled ''resolved'')"
    by auto
  with m n e t show ?thesis by simp
qed

text \<open>
  C1 as stated fails where a criterion is given with an empty value: with the required
  ticket status \<open>""\<close> and a ticket that is \<open>open\<close>, the check is valid although the
  status is not the required one. It also fails on the state that the log call with the
  message 5 leaves: there the check returns nothing, the substring test raises TypeError.
\<close>

theorem check_acceptance_as_stated_counterexample:
  "check_acceptance EnvState \<lparr>deployment = None, incident_log_contains = None, ticket_status = Some ''''\<rparr>
     = Inr \<lparr>valid = True, reasons = []\<rparr> \<and>
   \<not> criteria_hold_as_given EnvState
       \<lparr>deployment = None, incident_log_contains = None, ticket_status = Some ''''\<rparr> \<and>
   check_acceptance (snd (exec_tool world0 env_checkout log_int_call))
       \<lparr>deployment = None, incident_log_contains = Some ''scaled'', ticket_status = None\<rparr>
     = Inl (TypeError (''argument of type '' @ quoted ''int'' @ '' is not iterable''))"
  by (simp add: exec_log_int)
     (simp add: EnvState_def check_acceptance_def check_log_def check_deployment_def
      check_ticket_def criteria_hold_as_given_def ticket_holds_def quoted_def)

text \<open>A deployment requirement that is not empty is evaluated whatever its keys are: one
  whose service is null, or that has only some other key, asks for the deployment
  \<open>None:None\<close>, which no state has. The empty dict asks for nothing.\<close>

lemma check_acceptance_requirement_without_names:
  "check_acceptance env_mitigated
       \<lparr>deployment = Some [(''service'', PNone)], incident_log_contains = None, ticket_status = None\<rparr>
     = Inr \<lparr>valid = False, reasons = [''missing deployment None:None'']\<rparr> \<and>
   check_acceptance env_mitigated
       \<lparr>deployment = Some [(''team'', PStr ''sre'')], incident_log_contains = None, ticket_status = None\<rparr>
     = Inr \<lparr>valid = False, reasons = [''missing deployment None:None'']\<rparr> \<and>
   check_acceptance env_mitigated
       \<lparr>deployment = Some [], incident_log_contains = None, ticket_status = None\<rparr>
     = Inr \<lparr>valid = True, reasons = []\<rparr>"
  by (simp add: env_mitigated_def scoring_eval_defs)

lemma tech_Inr:
  assumes "check_technical_success env c = Inr r"
  shows "valid r = (\<not> deployment_unmet env c \<and> \<not> log_unmet env c)"
proof -
  from assms obtain st0 st where d: "check_deployment env c (True, []) = Inr st0"
    and l: "check_log env c st0 = Inr st" and r: "valid r = fst st"
    by (auto simp: check_technical_success_def split: sum.splits)
  obtain b rs where st0: "st0 = (b, rs)" by (cases st0)
  from check_deployment_Inr[OF d] st0 have b: "b = (\<not> deployment_unmet env c)" by auto
  from check_log_Inr[OF l[unfolded st0]] r b show ?thesis by simp
qed

lemma tech_of_acc:
  "check_acceptance env c = Inr r \<Longrightarrow> \<exists>r'. check_technical_success env c = Inr r'"
  by (auto simp: check_acceptance_def check_technical_success_def split: sum.splits)

lemma acc_of_tech:
  "check_technical_success env c = Inr r' \<Longrightarrow> \<exists>r. check_acceptance env c = Inr r"
  by (auto simp: check_acceptance_def check_technical_success_def Let_def split: sum.splits)

lemma tech_met:
  assumes "messages_are_strings env" and "\<not> deployment_unmet env c" and "\<not> log_unmet env c"
  shows "\<exists>r'. check_technical_success env c = Inr r' \<and> valid r'"
proof -
  from check_deployment_met[OF assms(2)]
  have d: "check_deployment env c (True, []) = Inr (True, [])" .
  from check_log_total[OF assms(1), of c True "[]"]
  obtain st where l: "check_log env c (True, []) = Inr st" by auto
  then have t: "check_technical_success env c = Inr \<lparr>valid = fst st, reasons = snd st\<rparr>"
    by (simp add: check_technical_success_def d)
  from tech_Inr[OF t] assms(2,3) have "fst st" by simp
  with t show ?thesis by simp
qed

lemma check_deployment_frame:
  "check_deployment (env\<lparr>env_ticket := t\<rparr>) (c\<lparr>ticket_status := s\<rparr>) st = check_deployment env c st"
proof -
  have "find_deployment (env\<lparr>env_ticket := t\<rparr>) a b = find_deployment env a b" for a b
    by (cases a; cases b) simp_all
  then show ?thesis
    by (simp add: check_deployment_def cong: option.case_cong if_cong)
qed

lemma check_log_frame:
  "check_log (env\<lparr>env_ticket := t\<rparr>) (c\<lparr>ticket_status := s\<rparr>) st = check_log env c st"
  by (simp add: check_log_def cong: option.case_cong if_cong)

text \<open>
  C2, as amended. \<open>check_technical_success\<close> does not depend on the ticket or on the
  ticket-status criterion. Whenever it returns, it is valid if and only if the deployment
  criterion and the log criterion are met, a criterion that is absent, null or empty
  counting as met. Whenever \<open>check_acceptance\<close> returns valid, \<open>check_technical_success\<close>
  returns valid. On a state whose log messages are all strings, that meets the
  deployment and the log criterion, and whose ticket status differs from a required
  status that is not empty, \<open>check_technical_success\<close> returns valid and
  \<open>check_acceptance\<close> returns not valid.
\<close>

theorem check_technical_success_ignores_ticket:
  "check_technical_success (env\<lparr>env_ticket := t\<rparr>) (c\<lparr>ticket_status := s\<rparr>) = check_technical_success env c \<and>
   (\<forall>r. check_technical_success env c = Inr r \<longrightarrow>
      (valid r \<longleftrightarrow> \<not> deployment_unmet env c \<and> \<not> log_unmet env c)) \<and>
   (\<forall>r. check_acceptance env c = Inr r \<and> valid r \<longrightarrow>
      (\<exists>r'. check_technical_success env c = Inr r' \<and> valid r')) \<and>
   (\<forall>req. messages_are_strings env \<and> \<not> deployment_unmet env c \<and> \<not> log_unmet env c \<and>
       ticket_status c = Some req \<and> req \<noteq> [] \<and> status (env_ticket env) \<noteq> req \<longrightarrow>
      (\<exists>r'. check_technical_success env c = Inr r' \<and> valid r') \<and>
      (\<exists>r. check_acceptance env c = Inr r \<and> \<not> valid r))"
proof (intro conjI allI impI)
  show "check_technical_success (env\<lparr>env_ticket := t\<rparr>) (c\<lparr>ticket_status := s\<rparr>) = check_technical_success env c"
    by (simp add: check_technical_success_def check_log_frame check_deployment_frame
        cong: sum.case_cong)
next
  fix r assume "check_technical_success env c = Inr r"
  then show "valid r \<longleftrightarrow> \<not> deployment_unmet env c \<and> \<not> log_unmet env c"
    by (rule tech_Inr)
next
  fix r assume a: "check_acceptance env c = Inr r \<and> valid r"
  then obtain r' where t: "check_technical_success env c = Inr r'"
    using tech_of_acc by blast
  from a acc_Inr(1)[of env c r] tech_Inr[OF t] have "valid r'" by simp
  with t show "\<exists>r'. check_technical_success env c = Inr r' \<and> valid r'" by blast
next
  fix req
  assume a: "messages_are_strings env \<and> \<not> deployment_unmet env c \<and> \<not> log_unmet env c \<and>
       ticket_status c = Some req \<and> req \<noteq> [] \<and> status (env_ticket env) \<noteq> req"
  then show "\<exists>r'. check_technical_success env c = Inr r' \<and> valid r'"
    using tech_met by blast
next
  fix req
  assume a: "messages_are_strings env \<and> \<not> deployment_unmet env c \<and> \<not> log_unmet env c \<and>
       ticket_status c = Some req \<and> req \<noteq> [] \<and> status (env_ticket env) \<noteq> req"
  then obtain r' where "check_technical_success env c = Inr r'"
    using tech_met by blast
  then obtain r where r: "check_acceptance env c = Inr r"
    using acc_of_tech by blast
  from a have "ticket_unmet env c" by (simp add: ticket_unmet_def ticket_holds_def)
  with acc_Inr(1)[OF r] have "\<not> valid r" by simp
  with r show "\<exists>r. check_acceptance env c = Inr r \<and> \<not> valid r" by blast
qed

text \<open>The theorem at the scaled and logged state, with a required status that the
  ticket does not have, and with the one it has.\<close>

theorem check_technical_success_ignores_ticket_witness:
  "messages_are_strings env_mitigated \<and>
   \<not> deployment_unmet env_mitigated (criteria_scaled ''resolved'') \<and>
   \<not> log_unmet env_mitigated (criteria_scaled ''resolved'') \<and>
   ticket_status (criteria_scaled ''resolved'') = Some ''resolved'' \<and>
   status (env_ticket env_mitigated) \<noteq> ''resolved'' \<and>
   (\<exists>r'. check_technical_success env_mitigated (criteria_scaled ''resolved'') = Inr r' \<and> valid r') \<and>
   (\<exists>r. check_acceptance env_mitigated (criteria_scaled ''resolved'') = Inr r \<and> \<not> valid r) \<and>
   check_acceptance env_mitigated (criteria_scaled ''mitigated'') = Inr \<lparr>valid = True, reasons = []\<rparr> \<and>
   (\<exists>r'. check_technical_success env_mitigated (criteria_scaled ''mitigated'') = Inr r' \<and> valid r')"
proof -
  have m: "messages_are_strings env_mitigated"
    by (simp add: messages_are_strings_def env_mitigated_def)
  have d: "\<not> deployment_unmet env_mitigated (criteria_scaled ''resolved'')"
    by (simp add: deployment_unmet_def deployment_holds_def env_mitigated_def criteria_scaled_def)
  have l: "\<not> log_unmet env_mitigated (criteria_scaled ''resolved'')"
    by (simp add: log_unmet_def log_holds_def env_mitigated_def criteria_scaled_def)
  have s: "ticket_status (criteria_scaled ''resolved'') = Some ''resolved''"
    "status (env_ticket env_mitigated) \<noteq> ''resolved''" "''resolved'' \<noteq> []"
    by (simp_all add: env_mitigated_def criteria_scaled_def)
  have a: "check_acceptance env_mitigated (criteria_scaled ''mitigated'') =
      Inr \<lparr>valid = True, reasons = []\<rparr>"
    by (simp add: env_mitigated_def criteria_scaled_def scoring_eval_defs)
  have 1: "(\<exists>r'. check_technical_success env_mitigated (criteria_scaled ''resolved'') = Inr r' \<and> valid r') \<and>
      (\<exists>r. check_acceptance env_mitigated (criteria_scaled ''resolved'') = Inr r \<and> \<not> valid r)"
    using check_technical_success_ignores_ticket[where env = env_mitigated
      and t = "env_ticket env_mitigated" and c = "criteria_scaled ''resolved''" and s = None,
      THEN conjunct2, THEN conjunct2, THEN conjunct2, rule_format, of "''resolved''"] m d l s
    by (simp only: simp_thms)
  have 2: "\<exists>r'. check_technical_success env_mitigated (criteria_scaled ''mitigated'') = Inr r' \<and> valid r'"
    using check_technical_success_ignores_ticket[where env = env_mitigated
      and t = "env_ticket env_mitigated" and c = "criteria_scaled ''mitigated''" and s = None] a
    by (metis acceptance.select_convs(1))
  from m d l s(1,2) a 1 2 show ?thesis by (simp only: simp_thms)
qed

text \<open>The scaled state whose log holds the message 5 before the message of the
  scenario, as two log calls leave it.\<close>

definition env_int_logged :: env_state where
  "env_int_logged = env_mitigated\<lparr>incident_log_entries :=
     [\<lparr>ts = 0, severity = ''info'', message = PInt 5\<rparr>,
      \<lparr>ts = 0, severity = ''warning'', message = PStr ''scaled checkout-service to mitigate errors''\<rparr>]\<rparr>"

text \<open>
  C2 as stated fails for a required status that is empty: the state meets the deployment
  and log criteria, its ticket status differs from the required \<open>""\<close>, and acceptance is
  valid all the same. It also fails on the state whose log holds the message 5 before
  the message of the scenario: the state meets the deployment and log criteria and its
  ticket status differs from the required one, and neither check returns.
\<close>

theorem check_technical_success_empty_status_counterexample:
  "check_technical_success env_mitigated (criteria_scaled '''') = Inr \<lparr>valid = True, reasons = []\<rparr> \<and>
   ticket_status (criteria_scaled '''') = Some '''' \<and>
   status (env_ticket env_mitigated) \<noteq> '''' \<and>
   check_acceptance env_mitigated (criteria_scaled '''') = Inr \<lparr>valid = True, reasons = []\<rparr> \<and>
   deployment_holds env_int_logged [(''service'', PStr ''checkout-service''),
        (''namespace'', PStr ''prod''), (''replicas_gte'', PInt 5)] \<and>
   log_holds env_int_logged ''scaled checkout-service'' \<and>
   status (env_ticket env_int_logged) \<noteq> ''resolved'' \<and>
   check_technical_success env_int_logged (criteria_scaled ''resolved'') =
     Inl (TypeError (''argument of type '' @ quoted ''int'' @ '' is not iterable'')) \<and>
   check_acceptance env_int_logged (criteria_scaled ''resolved'') =
     Inl (TypeError (''argument of type '' @ quoted ''int'' @ '' is not iterable''))"
  by (simp add: env_int_logged_def env_mitigated_def criteria_scaled_def check_technical_success_def
      check_acceptance_def check_log_def check_deployment_def check_ticket_def below_def
      deployment_holds_def log_holds_def dict_get_def quoted_def Let_def)
section \<open>Properties of the partial-credit signals\<close>

text \<open>An action is a scale, restart or feature-flag call; a query is a metrics call.
  \<open>action_then_query P\<close> holds of a list of calls when an action that satisfies \<open>P\<close> is
  followed, later in the list, by a query.\<close>

definition is_action :: "trace_entry \<Rightarrow> bool" where
  "is_action c = (name (call c) \<in> {''k8s_scale'', ''k8s_restart'', ''feature_flag_set''})"

definition is_query :: "trace_entry \<Rightarrow> bool" where
  "is_query c = (name (call c) = ''metrics_query'')"

fun action_then_query :: "(trace_entry \<Rightarrow> bool) \<Rightarrow> trace_entry list \<Rightarrow> bool" where
  "action_then_query P [] = False"
| "action_then_query P (c # cs) = ((is_action c \<and> P c \<and> list_ex is_query cs) \<or> action_then_query P cs)"

lemma action_then_query_iff:
  "action_then_query P cs \<longleftrightarrow>
     (\<exists>xs c ys q zs. cs = xs @ c # ys @ q # zs \<and> is_action c \<and> P c \<and> is_query q)"
proof (induction cs)
  case Nil
  then show ?case by simp
next
  case (Cons a cs)
  show ?case
  proof
    assume "action_then_query P (a # cs)"
    then consider "is_action a" "P a" "list_ex is_query cs" | "action_then_query P cs" by auto
    then show "\<exists>xs c ys q zs. a # cs = xs @ c # ys @ q # zs \<and> is_action c \<and> P c \<and> is_query q"
    proof cases
      case 1
      from 1(3) obtain ys q zs where "cs = ys @ q # zs" "is_query q"
        by (auto simp: list_ex_iff dest: split_list)
      with 1 have "a # cs = [] @ a # ys @ q # zs \<and> is_action a \<and> P a \<and> is_query q" by simp
      then show ?thesis by blast
    next
      case 2
      with Cons.IH obtain xs c ys q zs where
        "cs = xs @ c # ys @ q # zs" "is_action c" "P c" "is_query q" by blast
      then have "a # cs = (a # xs) @ c # ys @ q # zs \<and> is_action c \<and> P c \<and> is_query q" by simp
      then show ?thesis by blast
    qed
  next
    assume "\<exists>xs c ys q zs. a # cs = xs @ c # ys @ q # zs \<and> is_action c \<and> P c \<and> is_query q"
    then obtain xs c ys q zs where
      eq: "a # cs = xs @ c # ys @ q # zs" and p: "is_action c" "P c" "is_query q" by blast
    show "action_then_query P (a # cs)"
    proof (cases xs)
      case Nil
      with eq have "a = c" "cs = ys @ q # zs" by auto
      with p show ?thesis by (auto simp: list_ex_iff)
    next
      case (Cons x xs')
      with eq have "cs = xs' @ c # ys @ q # zs" by simp
      with p have "action_then_query P cs" unfolding Cons.IH by blast
      then show ?thesis by simp
    qed
  qed
qed

lemma verification_loop_eq:
  "verification_loop (d, v) cs =
     (d \<or> list_ex is_action cs,
      v \<or> (d \<and> list_ex is_query cs) \<or> action_then_query (\<lambda>c. True) cs)"
proof (induction cs arbitrary: d v)
  case Nil
  then show ?case by simp
next
  case (Cons c cs)
  have excl: "\<not> (is_action c \<and> is_query c)"
    by (auto simp: is_action_def is_query_def)
  have "verification_loop (d, v) (c # cs) =
      verification_loop (d \<or> is_action c, v \<or> ((d \<or> is_action c) \<and> is_query c)) cs"
    by (auto simp: Let_def is_action_def is_query_def)
  then show ?case using excl by (auto simp: Cons.IH)
qed

lemma verification_performed_eq:
  "verification_performed (partial_credit trace) = action_then_query (\<lambda>c. True) (tool_calls trace)"
  by (simp add: partial_credit_def Let_def verification_loop_eq split: prod.splits)

lemma queries_before_actions:
  "list_all (\<lambda>c. \<not> is_action c) qs \<Longrightarrow> list_all (\<lambda>c. \<not> is_query c) rest \<Longrightarrow>
     \<not> action_then_query P (qs @ rest)"
proof (induction qs)
  case Nil
  then show ?case by (induction rest) (auto simp: list_ex_iff list_all_iff)
next
  case (Cons a qs)
  then show ?case by simp
qed

text \<open>
  C4, as amended. \<open>verification_performed\<close> is true if and only if a scale, restart or
  feature-flag call, successful or not, appears in the trace and a metrics query follows
  it later in the trace; a trace in which every metrics query comes before every such
  call gives false.
\<close>

theorem verification_performed_iff:
  "(verification_performed (partial_credit trace) \<longleftrightarrow>
      (\<exists>xs c ys q zs. tool_calls trace = xs @ c # ys @ q # zs \<and> is_action c \<and> is_query q)) \<and>
   (\<forall>qs rest. tool_calls trace = qs @ rest \<and> list_all (\<lambda>c. \<not> is_action c) qs \<and>
        list_all (\<lambda>c. \<not> is_query c) rest \<longrightarrow>
      \<not> verification_performed (partial_credit trace))"
  using queries_before_actions
  by (simp add: verification_performed_eq action_then_query_iff)

text \<open>The theorem at the run of a query followed by a scale call.\<close>

theorem verification_performed_iff_witness:
  "tool_calls (fst (run_sequence (\<lambda>i. world0) env_checkout [query_call, scale_call 6] 8)) =
     [\<lparr>step = 1, call = query_call, result = fst (exec_tool world0 env_checkout query_call)\<rparr>] @
     [\<lparr>step = 2, call = scale_call 6,
        result = fst (exec_tool world0 (snd (exec_tool world0 env_checkout query_call)) (scale_call 6))\<rparr>] \<and>
   \<not> verification_performed
       (partial_credit (fst (run_sequence (\<lambda>i. world0) env_checkout [query_call, scale_call 6] 8)))"
proof -
  let ?T = "fst (run_sequence (\<lambda>i. world0) env_checkout [query_call, scale_call 6] 8)"
  let ?q = "\<lparr>step = 1, call = query_call, result = fst (exec_tool world0 env_checkout query_call)\<rparr>"
  let ?a = "\<lparr>step = 2, call = scale_call 6,
        result = fst (exec_tool world0 (snd (exec_tool world0 env_checkout query_call)) (scale_call 6))\<rparr>"
  have e: "tool_calls ?T = [?q] @ [?a]"
    using run_sequence_two[of "\<lambda>i. world0" env_checkout query_call "scale_call 6" 6]
    by (simp add: eval_nat_numeral)
  have q: "list_all (\<lambda>c. \<not> is_action c) [?q]"
    by (simp add: is_action_def query_call_def)
  have a: "list_all (\<lambda>c. \<not> is_query c) [?a]"
    by (simp add: is_query_def scale_call_def)
  have "\<not> verification_performed (partial_credit ?T)"
    using verification_performed_iff[of ?T, THEN conjunct2, rule_format, of "[?q]" "[?a]"] e q a
    by (simp only: simp_thms)
  with e show ?thesis by (simp only: simp_thms)
qed

text \<open>
  C4 as stated asks for a successful action. The run of a scale call that fails
  (150 replicas) and a query after it has \<open>verification_performed\<close> true, and no
  successful action in its trace.
\<close>

theorem verification_after_failed_action_counterexample:
  "verification_performed
     (partial_credit (fst (run_sequence (\<lambda>i. world0) env_checkout [scale_call 150, query_call] 8))) \<and>
   \<not> list_ex (\<lambda>c. is_action c \<and> ok (result c))
       (tool_calls (fst (run_sequence (\<lambda>i. world0) env_checkout [scale_call 150, query_call] 8)))"
proof -
  let ?T = "fst (run_sequence (\<lambda>i. world0) env_checkout [scale_call 150, query_call] 8)"
  have e: "tool_calls ?T =
     [\<lparr>step = 1, call = scale_call 150, result = failure ''replicas out of range: 150''\<rparr>,
      \<lparr>step = 2, call = query_call, result = fst (exec_tool world0 env_checkout query_call)\<rparr>]"
    using run_sequence_two[of "\<lambda>i. world0" env_checkout "scale_call 150" query_call 6]
    by (simp add: eval_nat_numeral exec_scale_150)
  have "action_then_query (\<lambda>c. True) (tool_calls ?T)"
    unfolding e by (simp add: is_action_def is_query_def scale_call_def query_call_def)
  then have "verification_performed (partial_credit ?T)"
    by (simp only: verification_performed_eq)
  moreover have "\<not> list_ex (\<lambda>c. is_action c \<and> ok (result c)) (tool_calls ?T)"
    unfolding e by (simp add: is_action_def query_call_def failure_def)
  ultimately show ?thesis by simp
qed


















text \<open>A scale call that does not bind: it has no \<open>replicas\<close> argument.\<close>

definition scale_call_no_replicas :: tool_call where
  "scale_call_no_replicas = \<lparr>name = ''k8s_scale'', arguments =
     [(''service'', PStr ''checkout-service''), (''namespace'', PStr ''prod'')]\<rparr>"



section \<open>Properties of the weighted score\<close>

text \<open>The weight that a signal earns, and the real value of a float.\<close>

definition points :: "bool \<Rightarrow> real \<Rightarrow> real" where
  "points b w = (if b then w else 0)"

fun real_of_double :: "double \<Rightarrow> real" where
  "real_of_double (Finite a) = a"
| "real_of_double x = 0"

text \<open>The floats of the weights, and every float operation that
  \<open>compute_weighted_score\<close> performs on them, evaluated in the rounding model. The
  operands are the exact values of the floats.\<close>

lemma score_weights_eval:
  "w_technical_task score_weights_table = Finite (5404319552844595 / 9007199254740992)"
  "w_ticket_updated score_weights_table = Finite (5404319552844595 / 36028797018963968)"
  "w_incident_logged score_weights_table = Finite (5404319552844595 / 36028797018963968)"
  "w_verification score_weights_table = Finite (3602879701896397 / 72057594037927936)"
  "w_tool_syntax score_weights_table = Finite (3602879701896397 / 72057594037927936)"
  by (simp_all add: score_weights_table_def fl_eval)

lemma score_mul_table:
  "fmul (Finite (0)) (Finite (3602879701896397 / 72057594037927936)) = Finite (0)"
  "fmul (Finite (0)) (Finite (5404319552844595 / 36028797018963968)) = Finite (0)"
  "fmul (Finite (0)) (Finite (5404319552844595 / 9007199254740992)) = Finite (0)"
  "fmul (Finite (0)) (Finite (100)) = Finite (0)"
  "fmul (Finite (3602879701896397 / 72057594037927936)) (Finite (100)) = Finite (5)"
  "fmul (Finite (3602879701896397 / 36028797018963968)) (Finite (100)) = Finite (10)"
  "fmul (Finite (5404319552844595 / 36028797018963968)) (Finite (100)) = Finite (15)"
  "fmul (Finite (3602879701896397 / 18014398509481984)) (Finite (100)) = Finite (20)"
  "fmul (Finite (1 / 4)) (Finite (100)) = Finite (25)"
  "fmul (Finite (5404319552844595 / 18014398509481984)) (Finite (100)) = Finite (30)"
  "fmul (Finite (3152519739159347 / 9007199254740992)) (Finite (100)) = Finite (35)"
  "fmul (Finite (7205759403792793 / 18014398509481984)) (Finite (100)) = Finite (40)"
  "fmul (Finite (5404319552844595 / 9007199254740992)) (Finite (100)) = Finite (60)"
  "fmul (Finite (5854679515581645 / 9007199254740992)) (Finite (100)) = Finite (65)"
  "fmul (Finite (6305039478318695 / 9007199254740992)) (Finite (100)) = Finite (70)"
  "fmul (Finite (3 / 4)) (Finite (100)) = Finite (75)"
  "fmul (Finite (3602879701896397 / 4503599627370496)) (Finite (100)) = Finite (80)"
  "fmul (Finite (1914029841632461 / 2251799813685248)) (Finite (100)) = Finite (5981343255101441 / 70368744177664)"
  "fmul (Finite (8106479329266893 / 9007199254740992)) (Finite (100)) = Finite (90)"
  "fmul (Finite (8556839292003943 / 9007199254740992)) (Finite (100)) = Finite (95)"
  "fmul (Finite (1)) (Finite (3602879701896397 / 72057594037927936)) = Finite (3602879701896397 / 72057594037927936)"
  "fmul (Finite (1)) (Finite (5404319552844595 / 36028797018963968)) = Finite (5404319552844595 / 36028797018963968)"
  "fmul (Finite (1)) (Finite (5404319552844595 / 9007199254740992)) = Finite (5404319552844595 / 9007199254740992)"
  "fmul (Finite (1)) (Finite (100)) = Finite (100)"
  by (simp_all add: fl_eval)

lemma score_add_table:
  "fadd (Finite (0)) (Finite (0)) = Finite (0)"
  "fadd (Finite (0)) (Finite (3602879701896397 / 72057594037927936)) = Finite (3602879701896397 / 72057594037927936)"
  "fadd (Finite (0)) (Finite (5404319552844595 / 36028797018963968)) = Finite (5404319552844595 / 36028797018963968)"
  "fadd (Finite (3602879701896397 / 72057594037927936)) (Finite (0)) = Finite (3602879701896397 / 72057594037927936)"
  "fadd (Finite (3602879701896397 / 72057594037927936)) (Finite (3602879701896397 / 72057594037927936)) = Finite (3602879701896397 / 36028797018963968)"
  "fadd (Finite (5404319552844595 / 36028797018963968)) (Finite (0)) = Finite (5404319552844595 / 36028797018963968)"
  "fadd (Finite (5404319552844595 / 36028797018963968)) (Finite (3602879701896397 / 72057594037927936)) = Finite (3602879701896397 / 18014398509481984)"
  "fadd (Finite (5404319552844595 / 36028797018963968)) (Finite (5404319552844595 / 36028797018963968)) = Finite (5404319552844595 / 18014398509481984)"
  "fadd (Finite (3602879701896397 / 18014398509481984)) (Finite (0)) = Finite (3602879701896397 / 18014398509481984)"
  "fadd (Finite (3602879701896397 / 18014398509481984)) (Finite (3602879701896397 / 72057594037927936)) = Finite (1 / 4)"
  "fadd (Finite (5404319552844595 / 18014398509481984)) (Finite (0)) = Finite (5404319552844595 / 18014398509481984)"
  "fadd (Finite (5404319552844595 / 18014398509481984)) (Finite (3602879701896397 / 72057594037927936)) = Finite (3152519739159347 / 9007199254740992)"
  "fadd (Finite (3152519739159347 / 9007199254740992)) (Finite (0)) = Finite (3152519739159347 / 9007199254740992)"
  "fadd (Finite (3152519739159347 / 9007199254740992)) (Finite (3602879701896397 / 72057594037927936)) = Finite (7205759403792793 / 18014398509481984)"
  "fadd (Finite (5404319552844595 / 9007199254740992)) (Finite (0)) = Finite (5404319552844595 / 9007199254740992)"
  "fadd (Finite (5404319552844595 / 9007199254740992)) (Finite (3602879701896397 / 72057594037927936)) = Finite (5854679515581645 / 9007199254740992)"
  "fadd (Finite (5404319552844595 / 9007199254740992)) (Finite (5404319552844595 / 36028797018963968)) = Finite (3 / 4)"
  "fadd (Finite (5854679515581645 / 9007199254740992)) (Finite (0)) = Finite (5854679515581645 / 9007199254740992)"
  "fadd (Finite (5854679515581645 / 9007199254740992)) (Finite (3602879701896397 / 72057594037927936)) = Finite (6305039478318695 / 9007199254740992)"
  "fadd (Finite (3 / 4)) (Finite (0)) = Finite (3 / 4)"
  "fadd (Finite (3 / 4)) (Finite (3602879701896397 / 72057594037927936)) = Finite (3602879701896397 / 4503599627370496)"
  "fadd (Finite (3 / 4)) (Finite (5404319552844595 / 36028797018963968)) = Finite (8106479329266893 / 9007199254740992)"
  "fadd (Finite (3602879701896397 / 4503599627370496)) (Finite (0)) = Finite (3602879701896397 / 4503599627370496)"
  "fadd (Finite (3602879701896397 / 4503599627370496)) (Finite (3602879701896397 / 72057594037927936)) = Finite (1914029841632461 / 2251799813685248)"
  "fadd (Finite (8106479329266893 / 9007199254740992)) (Finite (0)) = Finite (8106479329266893 / 9007199254740992)"
  "fadd (Finite (8106479329266893 / 9007199254740992)) (Finite (3602879701896397 / 72057594037927936)) = Finite (8556839292003943 / 9007199254740992)"
  "fadd (Finite (8556839292003943 / 9007199254740992)) (Finite (0)) = Finite (8556839292003943 / 9007199254740992)"
  "fadd (Finite (8556839292003943 / 9007199254740992)) (Finite (3602879701896397 / 72057594037927936)) = Finite (1)"
  by (simp_all add: fl_eval)

lemma score_round_table:
  "py_round1 (Finite (0)) = Finite (0)"
  "py_round1 (Finite (5)) = Finite (5)"
  "py_round1 (Finite (10)) = Finite (10)"
  "py_round1 (Finite (15)) = Finite (15)"
  "py_round1 (Finite (20)) = Finite (20)"
  "py_round1 (Finite (25)) = Finite (25)"
  "py_round1 (Finite (30)) = Finite (30)"
  "py_round1 (Finite (35)) = Finite (35)"
  "py_round1 (Finite (40)) = Finite (40)"
  "py_round1 (Finite (60)) = Finite (60)"
  "py_round1 (Finite (65)) = Finite (65)"
  "py_round1 (Finite (70)) = Finite (70)"
  "py_round1 (Finite (75)) = Finite (75)"
  "py_round1 (Finite (80)) = Finite (80)"
  "py_round1 (Finite (5981343255101441 / 70368744177664)) = Finite (85)"
  "py_round1 (Finite (90)) = Finite (90)"
  "py_round1 (Finite (95)) = Finite (95)"
  "py_round1 (Finite (100)) = Finite (100)"
  by (simp_all add: fl_eval)

lemmas score_eval = compute_weighted_score_def Let_def score_of_def score_weights_eval
  score_mul_table score_add_table score_round_table if_True if_False
  weighted_score.select_convs breakdown.select_convs

lemma total_eval:
  "total_score (compute_weighted_score acc part technical) =
     Finite (points (valid technical) 60 + points (ticket_updated part) 15 +
             points (incident_logged part) 15 + points (verification_performed part) 5 +
             points (tool_syntax_ok part) 5)"
  by (cases "valid technical"; cases "ticket_updated part"; cases "incident_logged part";
      cases "verification_performed part"; cases "tool_syntax_ok part";
      (simp only: score_eval, simp add: points_def))

lemma breakdown_eval:
  "b_technical_task (score_breakdown (compute_weighted_score acc part technical)) =
     Finite (points (valid technical) 60)"
  "b_ticket_updated (score_breakdown (compute_weighted_score acc part technical)) =
     Finite (points (ticket_updated part) 15)"
  "b_incident_logged (score_breakdown (compute_weighted_score acc part technical)) =
     Finite (points (incident_logged part) 15)"
  "b_verification (score_breakdown (compute_weighted_score acc part technical)) =
     Finite (points (verification_performed part) 5)"
  "b_tool_syntax (score_breakdown (compute_weighted_score acc part technical)) =
     Finite (points (tool_syntax_ok part) 5)"
proof -
  show "b_technical_task (score_breakdown (compute_weighted_score acc part technical)) =
     Finite (points (valid technical) 60)"
    by (cases "valid technical"; (simp only: score_eval, simp add: points_def))
  show "b_ticket_updated (score_breakdown (compute_weighted_score acc part technical)) =
     Finite (points (ticket_updated part) 15)"
    by (cases "ticket_updated part"; (simp only: score_eval, simp add: points_def))
  show "b_incident_logged (score_breakdown (compute_weighted_score acc part technical)) =
     Finite (points (incident_logged part) 15)"
    by (cases "incident_logged part"; (simp only: score_eval, simp add: points_def))
  show "b_verification (score_breakdown (compute_weighted_score acc part technical)) =
     Finite (points (verification_performed part) 5)"
    by (cases "verification_performed part"; (simp only: score_eval, simp add: points_def))
  show "b_tool_syntax (score_breakdown (compute_weighted_score acc part technical)) =
     Finite (points (tool_syntax_ok part) 5)"
    by (cases "tool_syntax_ok part"; (simp only: score_eval, simp add: points_def))
qed

text \<open>
  C3. For every technical-success record and every partial-credit record, the total is
  the float 60 if technical success is valid, plus 15 if \<open>ticket_updated\<close>, plus 15 if
  \<open>incident_logged\<close>, plus 5 if \<open>verification_performed\<close>, plus 5 if \<open>tool_syntax_ok\<close>:
  each signal earns its whole weight or nothing, and the rounding of the float sum to
  one decimal removes its rounding error. The entries of the breakdown are these
  weights and sum to the total, the total is between 0 and 100, and with every signal
  true it is exactly 100.0.
\<close>

theorem compute_weighted_score_total:
  "total_score (compute_weighted_score acc part technical) =
     Finite (points (valid technical) 60 + points (ticket_updated part) 15 +
             points (incident_logged part) 15 + points (verification_performed part) 5 +
             points (tool_syntax_ok part) 5) \<and>
   score_breakdown (compute_weighted_score acc part technical) =
     \<lparr>b_technical_task = Finite (points (valid technical) 60),
      b_ticket_updated = Finite (points (ticket_updated part) 15),
      b_incident_logged = Finite (points (incident_logged part) 15),
      b_verification = Finite (points (verification_performed part) 5),
      b_tool_syntax = Finite (points (tool_syntax_ok part) 5)\<rparr> \<and>
   real_of_double (total_score (compute_weighted_score acc part technical)) =
     real_of_double (b_technical_task (score_breakdown (compute_weighted_score acc part technical))) +
     real_of_double (b_ticket_updated (score_breakdown (compute_weighted_score acc part technical))) +
     real_of_double (b_incident_logged (score_breakdown (compute_weighted_score acc part technical))) +
     real_of_double (b_verification (score_breakdown (compute_weighted_score acc part technical))) +
     real_of_double (b_tool_syntax (score_breakdown (compute_weighted_score acc part technical))) \<and>
   0 \<le> real_of_double (total_score (compute_weighted_score acc part technical)) \<and>
   real_of_double (total_score (compute_weighted_score acc part technical)) \<le> 100 \<and>
   max_score (compute_weighted_score acc part technical) = Finite 100 \<and>
   total_score (compute_weighted_score acc
       \<lparr>tool_syntax_ok = True, verification_performed = True, incident_logged = True,
        ticket_updated = True\<rparr> \<lparr>valid = True, reasons = rs\<rparr>) = Finite 100"
proof -
  let ?r = "compute_weighted_score acc part technical"
  have b: "score_breakdown ?r =
     \<lparr>b_technical_task = Finite (points (valid technical) 60),
      b_ticket_updated = Finite (points (ticket_updated part) 15),
      b_incident_logged = Finite (points (incident_logged part) 15),
      b_verification = Finite (points (verification_performed part) 5),
      b_tool_syntax = Finite (points (tool_syntax_ok part) 5)\<rparr>"
    by (rule breakdown.equality) (simp_all add: breakdown_eval)
  have m: "max_score ?r = Finite 100"
    by (simp add: compute_weighted_score_def Let_def)
  have r: "0 \<le> points x w" "points x w \<le> w" if "0 \<le> w" for x w
    using that by (simp_all add: points_def)
  have lo: "0 \<le> real_of_double (total_score ?r)"
    by (simp add: total_eval r)
  have hi: "real_of_double (total_score ?r) \<le> 100"
    using r(2)[of 60 "valid technical"] r(2)[of 15 "ticket_updated part"]
      r(2)[of 15 "incident_logged part"] r(2)[of 5 "verification_performed part"]
      r(2)[of 5 "tool_syntax_ok part"]
    by (simp add: total_eval)
  have a: "total_score (compute_weighted_score acc
       \<lparr>tool_syntax_ok = True, verification_performed = True, incident_logged = True,
        ticket_updated = True\<rparr> \<lparr>valid = True, reasons = rs\<rparr>) = Finite 100"
    by (simp add: total_eval points_def)
  show ?thesis
    by (intro conjI, rule total_eval, rule b, simp add: total_eval breakdown_eval, rule lo, rule hi,
        rule m, rule a)
qed

section \<open>Properties of the tools and of the construction of the environment\<close>

text \<open>
  C7. On a deployment that exists, \<open>k8s_scale\<close> with a replica count in 1..100 succeeds
  and sets the replica count of that deployment; the other fields of the deployment,
  every other deployment, the feature flags, the ticket, the incident log and the seed
  are as before. With a replica count outside 1..100, or for a deployment that does not
  exist, it returns a failure and the environment is unchanged.
\<close>

theorem k8s_scale_frame:
  "(deployments env (svc, ns) = Some dep \<and> 1 \<le> n \<and> n \<le> 100 \<longrightarrow>
      (\<exists>res env'. k8s_scale w env (PStr svc) (PInt n) (PStr ns) = Inr (res, env') \<and> ok res \<and>
         deployments env' (svc, ns) = Some (dep\<lparr>replicas := n\<rparr>) \<and>
         (\<forall>k. k \<noteq> (svc, ns) \<longrightarrow> deployments env' k = deployments env k) \<and>
         feature_flags env' = feature_flags env \<and> env_ticket env' = env_ticket env \<and>
         incident_log_entries env' = incident_log_entries env \<and> seed env' = seed env)) \<and>
   (n < 1 \<or> 100 < n \<longrightarrow>
      (\<exists>res. k8s_scale w env (PStr svc) (PInt n) (PStr ns) = Inr (res, env) \<and> \<not> ok res)) \<and>
   (deployments env (svc, ns) = None \<longrightarrow>
      (\<exists>res. k8s_scale w env (PStr svc) (PInt n) (PStr ns) = Inr (res, env) \<and> \<not> ok res))"
  by (auto simp: k8s_scale_def success_def failure_def unknown_deployment_def)

text \<open>The theorem on the scenario: 6 replicas, 150 replicas, and a service that does
  not exist.\<close>

theorem k8s_scale_frame_witness:
  "deployments env_checkout (''checkout-service'', ''prod'') =
     Some \<lparr>service = ''checkout-service'', namespace = ''prod'', replicas = 2, restarted_at = None\<rparr> \<and>
   (\<exists>res env'. k8s_scale world0 env_checkout (PStr ''checkout-service'') (PInt 6) (PStr ''prod'') = Inr (res, env') \<and>
      ok res \<and>
      deployments env' (''checkout-service'', ''prod'') =
        Some \<lparr>service = ''checkout-service'', namespace = ''prod'', replicas = 6, restarted_at = None\<rparr>) \<and>
   (\<exists>res. k8s_scale world0 env_checkout (PStr ''checkout-service'') (PInt 150) (PStr ''prod'') =
        Inr (res, env_checkout) \<and> \<not> ok res) \<and>
   deployments env_checkout (''ghost'', ''prod'') = None \<and>
   (\<exists>res. k8s_scale world0 env_checkout (PStr ''ghost'') (PInt 6) (PStr ''prod'') =
        Inr (res, env_checkout) \<and> \<not> ok res)"
proof -
  let ?d = "\<lparr>service = ''checkout-service'', namespace = ''prod'', replicas = 2, restarted_at = None\<rparr>"
  have d: "deployments env_checkout (''checkout-service'', ''prod'') = Some ?d"
    by (simp add: env_checkout_eq)
  have g: "deployments env_checkout (''ghost'', ''prod'') = None"
    by (simp add: env_checkout_eq EnvState_def)
  have 1: "\<exists>res env'. k8s_scale world0 env_checkout (PStr ''checkout-service'') (PInt 6) (PStr ''prod'') = Inr (res, env') \<and>
      ok res \<and> deployments env' (''checkout-service'', ''prod'') = Some (?d\<lparr>replicas := 6\<rparr>)"
  proof -
    have n: "(1::int) \<le> 6 \<and> (6::int) \<le> 100" by simp
    from k8s_scale_frame[where env = env_checkout and svc = "''checkout-service''" and ns = "''prod''"
        and dep = ?d and n = 6 and w = world0, THEN conjunct1, THEN mp, OF conjI[OF d n]]
    show ?thesis by blast
  qed
  have 2: "\<exists>res. k8s_scale world0 env_checkout (PStr ''checkout-service'') (PInt 150) (PStr ''prod'') =
        Inr (res, env_checkout) \<and> \<not> ok res"
    using k8s_scale_frame[where env = env_checkout and svc = "''checkout-service''" and ns = "''prod''"
        and n = 150 and w = world0, THEN conjunct2, THEN conjunct1]
    by simp
  have 3: "\<exists>res. k8s_scale world0 env_checkout (PStr ''ghost'') (PInt 6) (PStr ''prod'') =
        Inr (res, env_checkout) \<and> \<not> ok res"
    using k8s_scale_frame[where env = env_checkout and svc = "''ghost''" and ns = "''prod''"
        and n = 6 and w = world0, THEN conjunct2, THEN conjunct2] g
    by simp
  from d g 1 2 3 show ?thesis by simp
qed

text \<open>The key and the deployment that \<open>build_env\<close> makes of an entry of the
  initial state.\<close>

definition item_key :: "dep_item \<Rightarrow> string \<times> string" where
  "item_key item = (item_service item, item_namespace item)"

definition item_deployment :: "dep_item \<Rightarrow> deployment" where
  "item_deployment item =
     \<lparr>service = item_service item, namespace = item_namespace item,
      replicas = (case item_replicas item of None \<Rightarrow> 1 | Some n \<Rightarrow> n), restarted_at = None\<rparr>"

lemma build_deployments_lookup:
  "deployments (build_deployments env items) k =
     (if filter (\<lambda>item. item_key item = k) items = [] then deployments env k
      else Some (item_deployment (last (filter (\<lambda>item. item_key item = k) items))))"
proof (induction items arbitrary: env)
  case Nil
  then show ?case by simp
next
  case (Cons item items)
  show ?case
    by (simp add: Cons.IH item_key_def item_deployment_def)
qed

lemma build_flags_deployments: "deployments (build_flags env kvs) = deployments env"
  by (induction kvs arbitrary: env) auto

lemma build_env_deployments:
  "deployments (build_env init) = deployments (build_deployments EnvState (init_deployments init))"
  by (simp add: build_env_def build_ticket_def build_flags_deployments split: option.splits)

text \<open>
  C10. \<open>build_env\<close> returns for every initial state; under a key that entries of the
  deployments list have, the environment holds the deployment of the last such entry in
  list order (its replica count, or 1 when it gives none), and the keys of the
  environment are the keys of the entries: one deployment for each, however many
  entries share it.
\<close>

theorem build_env_last_duplicate_wins:
  "(filter (\<lambda>item. item_key item = k) (init_deployments init) \<noteq> [] \<longrightarrow>
      deployments (build_env init) k =
        Some (item_deployment (last (filter (\<lambda>item. item_key item = k) (init_deployments init))))) \<and>
   dom (deployments (build_env init)) = item_key ` set (init_deployments init)"
proof (intro conjI impI)
  assume "filter (\<lambda>item. item_key item = k) (init_deployments init) \<noteq> []"
  then show "deployments (build_env init) k =
        Some (item_deployment (last (filter (\<lambda>item. item_key item = k) (init_deployments init))))"
    by (simp add: build_env_deployments build_deployments_lookup)
next
  show "dom (deployments (build_env init)) = item_key ` set (init_deployments init)"
    by (auto simp: build_env_deployments build_deployments_lookup dom_def EnvState_def
        filter_empty_conv intro: rev_image_eqI split: if_splits)
qed

text \<open>An initial state with two entries for \<open>checkout-service\<close> in \<open>prod\<close>.\<close>

definition duplicated_initial :: initial_state where
  "duplicated_initial = \<lparr>init_deployments =
       [\<lparr>item_service = ''checkout-service'', item_namespace = ''prod'', item_replicas = Some 2\<rparr>,
        \<lparr>item_service = ''cart'', item_namespace = ''prod'', item_replicas = None\<rparr>,
        \<lparr>item_service = ''checkout-service'', item_namespace = ''prod'', item_replicas = Some 5\<rparr>],
     init_feature_flags = [], init_ticket = None\<rparr>"

text \<open>The theorem at that state: the second entry's 5 replicas are kept.\<close>

theorem build_env_last_duplicate_wins_witness:
  "length (filter (\<lambda>item. item_key item = (''checkout-service'', ''prod''))
      (init_deployments duplicated_initial)) = 2 \<and>
   deployments (build_env duplicated_initial) (''checkout-service'', ''prod'') =
     Some \<lparr>service = ''checkout-service'', namespace = ''prod'', replicas = 5, restarted_at = None\<rparr>"
proof -
  have f: "filter (\<lambda>item. item_key item = (''checkout-service'', ''prod''))
      (init_deployments duplicated_initial) =
       [\<lparr>item_service = ''checkout-service'', item_namespace = ''prod'', item_replicas = Some 2\<rparr>,
        \<lparr>item_service = ''checkout-service'', item_namespace = ''prod'', item_replicas = Some 5\<rparr>]"
    by (simp add: duplicated_initial_def item_key_def)
  have "deployments (build_env duplicated_initial) (''checkout-service'', ''prod'') =
     Some (item_deployment (last (filter (\<lambda>item. item_key item = (''checkout-service'', ''prod''))
      (init_deployments duplicated_initial))))"
    using build_env_last_duplicate_wins[of "(''checkout-service'', ''prod'')" duplicated_initial,
        THEN conjunct1] f
    by simp
  then show ?thesis by (simp add: f item_deployment_def)
qed

section \<open>The ticket's status\<close>

definition valid_status :: "string \<Rightarrow> bool" where
  "valid_status s = (s \<in> {''open'', ''investigating'', ''mitigated'', ''resolved''})"

definition closed_initial :: initial_state where
  "closed_initial = \<lparr>init_deployments = [], init_feature_flags = [],
     init_ticket = Some \<lparr>init_status = Some ''closed'', init_note = None\<rparr>\<rparr>"

text \<open>
  C8. The status of the ticket is meant to be one of \<open>open\<close>, \<open>investigating\<close>,
  \<open>mitigated\<close>, \<open>resolved\<close> (the comment on \<open>Ticket.status\<close>; \<open>ticket_update\<close>
  refuses any other), but \<open>build_env\<close> copies the status of the initial state
  unchecked: from an initial state whose ticket is \<open>closed\<close>, the environment's status
  is \<open>closed\<close>.
\<close>

theorem build_env_unchecked_status:
  "status (env_ticket (build_env closed_initial)) = ''closed'' \<and>
   \<not> valid_status (status (env_ticket (build_env closed_initial)))"
  by (simp add: closed_initial_def build_env_def build_ticket_def valid_status_def)

lemma metrics_query_pure:
  "metrics_query w env svc metric minutes ns = Inr (res, env') \<Longrightarrow> env' = env"
  by (auto simp: metrics_query_def Let_def split: if_splits option.splits sum.splits prod.splits)

lemma k8s_scale_ticket:
  "k8s_scale w env svc reps ns = Inr (res, env') \<Longrightarrow> env_ticket env' = env_ticket env"
  by (auto simp: k8s_scale_def split: if_splits option.splits)

lemma k8s_restart_ticket:
  "k8s_restart w env svc ns = Inr (res, env') \<Longrightarrow> env_ticket env' = env_ticket env"
  by (auto simp: k8s_restart_def split: if_splits option.splits)

lemma feature_flag_set_ticket:
  "feature_flag_set w env flag enabled = Inr (res, env') \<Longrightarrow> env_ticket env' = env_ticket env"
  by (auto simp: feature_flag_set_def)

lemma incident_log_ticket:
  "incident_log w env msg sev = Inr (res, env') \<Longrightarrow> env_ticket env' = env_ticket env"
  by (auto simp: incident_log_def split: if_splits pyval.splits)

lemma ticket_update_status:
  "ticket_update w env st nt = Inr (res, env') \<Longrightarrow>
     env' = env \<or> valid_status (status (env_ticket env'))"
  by (auto simp: ticket_update_def valid_status_def split: if_splits pyval.splits)

lemma registry_cases:
  assumes "TOOL_REGISTRY nm = Some fn"
  shows "(nm = ''metrics_query'' \<and> fn = call_metrics_query) \<or>
         (nm = ''k8s_scale'' \<and> fn = call_k8s_scale) \<or>
         (nm = ''k8s_restart'' \<and> fn = call_k8s_restart) \<or>
         (nm = ''feature_flag_set'' \<and> fn = call_feature_flag_set) \<or>
         (nm = ''incident_log'' \<and> fn = call_incident_log) \<or>
         (nm = ''ticket_update'' \<and> fn = call_ticket_update)"
  using assms by (simp add: TOOL_REGISTRY_def split: if_splits)

lemma exec_tool_status:
  assumes "exec_tool w env c = (res, env')"
  shows "status (env_ticket env') = status (env_ticket env) \<or>
         (name c = ''ticket_update'' \<and> valid_status (status (env_ticket env')))"
proof (cases "TOOL_REGISTRY (name c)")
  case None
  with assms show ?thesis by (simp add: exec_tool_def)
next
  case (Some fn)
  show ?thesis
  proof (cases "fn w env (arguments c)")
    case (Inl e)
    with Some assms show ?thesis by (cases e) (simp_all add: exec_tool_def)
  next
    case (Inr p)
    with Some assms have p: "fn w env (arguments c) = Inr (res, env')"
      by (cases p) (simp add: exec_tool_def)
    from registry_cases[OF Some] show ?thesis
    proof (elim disjE conjE)
      assume "fn = call_metrics_query"
      with p show ?thesis
        by (auto simp: call_metrics_query_def split: sum.splits dest: metrics_query_pure)
    next
      assume "fn = call_k8s_scale"
      with p show ?thesis
        by (auto simp: call_k8s_scale_def split: sum.splits dest: k8s_scale_ticket)
    next
      assume "fn = call_k8s_restart"
      with p show ?thesis
        by (auto simp: call_k8s_restart_def split: sum.splits dest: k8s_restart_ticket)
    next
      assume "fn = call_feature_flag_set"
      with p show ?thesis
        by (auto simp: call_feature_flag_set_def split: sum.splits dest: feature_flag_set_ticket)
    next
      assume "fn = call_incident_log"
      with p show ?thesis
        by (auto simp: call_incident_log_def split: sum.splits dest: incident_log_ticket)
    next
      assume "name c = ''ticket_update''" "fn = call_ticket_update"
      with p show ?thesis
        by (auto simp: call_ticket_update_def split: sum.splits dest: ticket_update_status)
    qed
  qed
qed

lemma run_calls_status:
  "valid_status (status (env_ticket env)) \<Longrightarrow>
     valid_status (status (env_ticket (snd (run_calls wa m i env cs))))"
proof (induction cs arbitrary: env i)
  case Nil
  then show ?case by simp
next
  case (Cons c cs)
  obtain res env' where e: "exec_tool (wa i) env c = (res, env')"
    by (cases "exec_tool (wa i) env c")
  from exec_tool_status[OF e] Cons.prems have "valid_status (status (env_ticket env'))" by auto
  from Cons.IH[OF this, of "i + 1"] Cons.prems show ?case
    by (simp add: e case_prod_beta Let_def)
qed

text \<open>
  The tools keep the invariant that \<open>build_env\<close> can break: a run of calls from a state
  with a valid status ends in one; a call of any other name than \<open>ticket_update\<close> leaves
  the status as it is; and \<open>build_env\<close> gives a valid status when the initial state has
  one or none.
\<close>

theorem ticket_status_invariant:
  "(valid_status (status (env_ticket env)) \<longrightarrow>
      valid_status (status (env_ticket (snd (run_sequence wa env cs m))))) \<and>
   (name c \<noteq> ''ticket_update'' \<longrightarrow>
      status (env_ticket (snd (exec_tool w env c))) = status (env_ticket env)) \<and>
   ((case init_ticket init of None \<Rightarrow> True
     | Some ti \<Rightarrow> (case init_status ti of None \<Rightarrow> True | Some s \<Rightarrow> valid_status s)) \<longrightarrow>
      valid_status (status (env_ticket (build_env init))))"
proof (intro conjI impI)
  assume "valid_status (status (env_ticket env))"
  then show "valid_status (status (env_ticket (snd (run_sequence wa env cs m))))"
    using run_calls_status[of env wa m 0 cs]
    by (simp add: run_sequence_def case_prod_beta)
next
  assume "name c \<noteq> ''ticket_update''"
  then show "status (env_ticket (snd (exec_tool w env c))) = status (env_ticket env)"
    using exec_tool_status[of w env c "fst (exec_tool w env c)" "snd (exec_tool w env c)"] by simp
next
  have f: "env_ticket (build_flags env kvs) = env_ticket env" for env kvs
    by (induction kvs arbitrary: env) auto
  have d: "env_ticket (build_deployments env items) = env_ticket env" for env items
    by (induction items arbitrary: env) auto
  assume "case init_ticket init of None \<Rightarrow> True
     | Some ti \<Rightarrow> (case init_status ti of None \<Rightarrow> True | Some s \<Rightarrow> valid_status s)"
  then show "valid_status (status (env_ticket (build_env init)))"
    by (auto simp: build_env_def build_ticket_def f d EnvState_def valid_status_def
        split: option.splits)
qed

text \<open>The theorem on the scenario: a run of two calls, a scale call, and the
  construction of the environment.\<close>

theorem ticket_status_invariant_witness:
  "valid_status (status (env_ticket env_checkout)) \<and>
   valid_status (status (env_ticket
     (snd (run_sequence (\<lambda>i. world0) env_checkout [scale_call 150, query_call] 8)))) \<and>
   name (scale_call 6) \<noteq> ''ticket_update'' \<and>
   status (env_ticket (snd (exec_tool world0 env_checkout (scale_call 6)))) = ''open'' \<and>
   init_ticket checkout_initial = None \<and>
   valid_status (status (env_ticket (build_env checkout_initial)))"
proof -
  have v: "valid_status (status (env_ticket env_checkout))"
    by (simp add: env_checkout_eq EnvState_def valid_status_def)
  have o: "status (env_ticket env_checkout) = ''open''"
    by (simp add: env_checkout_eq EnvState_def)
  have n: "name (scale_call 6) \<noteq> ''ticket_update''"
    by (simp add: scale_call_def)
  have t: "init_ticket checkout_initial = None"
    by (simp add: checkout_initial_def)
  note i = ticket_status_invariant[where env = env_checkout and wa = "\<lambda>i. world0"
      and cs = "[scale_call 150, query_call]" and m = 8 and c = "scale_call 6" and w = world0
      and init = checkout_initial]
  from i[THEN conjunct1, THEN mp, OF v]
  have 1: "valid_status (status (env_ticket
     (snd (run_sequence (\<lambda>i. world0) env_checkout [scale_call 150, query_call] 8))))" .
  from i[THEN conjunct2, THEN conjunct1, THEN mp, OF n] o
  have 2: "status (env_ticket (snd (exec_tool world0 env_checkout (scale_call 6)))) = ''open''"
    by (simp only:)
  have "case init_ticket checkout_initial of None \<Rightarrow> True
     | Some ti \<Rightarrow> (case init_status ti of None \<Rightarrow> True | Some s \<Rightarrow> valid_status s)"
    by (simp add: t)
  from i[THEN conjunct2, THEN conjunct2, THEN mp, OF this]
  have 3: "valid_status (status (env_ticket (build_env checkout_initial)))" .
  from v 1 n 2 t 3 show ?thesis by (simp only: simp_thms)
qed

section \<open>Properties of the metrics query\<close>

text \<open>The replica count of the deployment that a query names (none when there is no
  such deployment), and what a call returns or raises, without the environment.\<close>

definition referenced_replicas :: "env_state \<Rightarrow> pyval \<Rightarrow> pyval \<Rightarrow> int option" where
  "referenced_replicas env svc ns = map_option (\<lambda>(key, dep). replicas dep) (find_deployment env svc ns)"

definition outcome :: "exn + tool_result \<times> env_state \<Rightarrow> exn + tool_result" where
  "outcome r = (case r of Inl e \<Rightarrow> Inl e | Inr (res, env) \<Rightarrow> Inr res)"

lemma metrics_query_outcome:
  assumes "seed env1 = seed env2"
    and "referenced_replicas env1 svc ns = referenced_replicas env2 svc ns"
  shows "outcome (metrics_query w env1 svc metric minutes ns) =
         outcome (metrics_query w env2 svc metric minutes ns)"
proof (cases "find_deployment env1 svc ns")
  case None
  with assms(2) have "find_deployment env2 svc ns = None"
    by (simp add: referenced_replicas_def)
  with None show ?thesis
    by (simp add: metrics_query_def outcome_def split: option.splits)
next
  case (Some p1)
  with assms(2) obtain p2 where p2: "find_deployment env2 svc ns = Some p2"
    and r: "replicas (snd p1) = replicas (snd p2)"
    by (cases "find_deployment env2 svc ns") (auto simp: referenced_replicas_def split: prod.splits)
  obtain k1 d1 k2 d2 where p: "p1 = (k1, d1)" "p2 = (k2, d2)"
    by (cases p1, cases p2) auto
  with r have r': "replicas d1 = replicas d2" by simp
  show ?thesis
    by (simp add: metrics_query_def outcome_def Some p2 p r' rng_def assms(1) Let_def
        split: option.splits sum.splits prod.splits)
qed

text \<open>
  Within one process (one world: the hash of a string and the generator are its),
  \<open>metrics_query\<close> on two environments that agree on the seed and on the replica count
  of the deployment that the call names returns the same result for the same arguments
  (the same \<open>ok\<close>, value, status, recommendation and error, or the same exception), and
  the environment that a call leaves is the one it was given.
\<close>

theorem metrics_query_deterministic:
  "(seed env1 = seed env2 \<and> referenced_replicas env1 svc ns = referenced_replicas env2 svc ns \<longrightarrow>
      outcome (metrics_query w env1 svc metric minutes ns) =
      outcome (metrics_query w env2 svc metric minutes ns)) \<and>
   (\<forall>res env'. metrics_query w env svc metric minutes ns = Inr (res, env') \<longrightarrow> env' = env)"
  using metrics_query_outcome metrics_query_pure by blast

text \<open>The scenario's environment after other changes: a flag, the ticket and the
  log differ, the seed and the deployment do not.\<close>

definition env_checkout_later :: env_state where
  "env_checkout_later = env_checkout\<lparr>
     feature_flags := [PStr ''dark-mode'' \<mapsto> PBool True],
     env_ticket := \<lparr>status = ''mitigated'', ticket_note = PStr ''scaled and verified''\<rparr>,
     incident_log_entries := [\<lparr>ts = 5, severity = ''warning'', message = PStr ''scaled''\<rparr>]\<rparr>"

text \<open>The theorem at these two environments.\<close>

theorem metrics_query_deterministic_witness:
  "seed env_checkout = seed env_checkout_later \<and>
   referenced_replicas env_checkout (PStr ''checkout-service'') (PStr ''prod'') = Some 2 \<and>
   referenced_replicas env_checkout_later (PStr ''checkout-service'') (PStr ''prod'') = Some 2 \<and>
   env_ticket env_checkout \<noteq> env_ticket env_checkout_later \<and>
   outcome (metrics_query world0 env_checkout (PStr ''checkout-service'') (PStr ''error_rate'')
     (PInt 15) (PStr ''prod'')) =
   outcome (metrics_query world0 env_checkout_later (PStr ''checkout-service'') (PStr ''error_rate'')
     (PInt 15) (PStr ''prod''))"
proof -
  have s: "seed env_checkout = seed env_checkout_later"
    by (simp add: env_checkout_later_def)
  have r1: "referenced_replicas env_checkout (PStr ''checkout-service'') (PStr ''prod'') = Some 2"
    by (simp add: referenced_replicas_def env_checkout_eq)
  have r2: "referenced_replicas env_checkout_later (PStr ''checkout-service'') (PStr ''prod'') = Some 2"
    by (simp add: referenced_replicas_def env_checkout_later_def env_checkout_eq)
  have t: "env_ticket env_checkout \<noteq> env_ticket env_checkout_later"
    by (simp add: env_checkout_later_def env_checkout_eq EnvState_def)
  have r: "referenced_replicas env_checkout (PStr ''checkout-service'') (PStr ''prod'') =
      referenced_replicas env_checkout_later (PStr ''checkout-service'') (PStr ''prod'')"
    by (simp only: r1 r2)
  from metrics_query_deterministic[where ?env1.0 = env_checkout and ?env2.0 = env_checkout_later
      and svc = "PStr ''checkout-service''" and ns = "PStr ''prod''" and w = world0
      and metric = "PStr ''error_rate''" and minutes = "PInt 15",
      THEN conjunct1, THEN mp, OF conjI, OF s r]
  have "outcome (metrics_query world0 env_checkout (PStr ''checkout-service'') (PStr ''error_rate'')
     (PInt 15) (PStr ''prod'')) =
   outcome (metrics_query world0 env_checkout_later (PStr ''checkout-service'') (PStr ''error_rate'')
     (PInt 15) (PStr ''prod''))" .
  with s r1 r2 t show ?thesis by (simp only: simp_thms)
qed

text \<open>The value that the query returns there: with two replicas and the draw 0, the
  error rate is the float \<open>0.045\<close>.\<close>

lemma metrics_query_error_rate_example:
  "outcome (metrics_query world0 env_checkout (PStr ''checkout-service'') (PStr ''error_rate'')
     (PInt 15) (PStr ''prod'')) =
   Inr (success [(''metric'', DVal (PStr ''error_rate'')), (''minutes'', DVal (PInt 15)),
     (''value'', DFloat (Finite (3242591731706757 / 72057594037927936))),
     (''status'', DVal (PStr ''concerning'')),
     (''recommendation'', DVal (PStr ''Error rate still high, consider further scaling''))])"
  by (simp add: outcome_def metrics_query_def env_checkout_eq EnvState_def int_to_double_def
      rng_def error_rate_metric_def world0_def fsub_def uniform_def py_max_def success_def
      str_int_def str_nat.simps digit_def fl_eval)


text \<open>The hash of a string is salted by the process. The hashes of the key
  \<open>checkout-service:prod:error_rate:15\<close> in two CPython 3.11 processes, started with
  \<open>PYTHONHASHSEED=1\<close> and with \<open>PYTHONHASHSEED=2\<close>, and the first numbers that
  \<open>random.Random(h)\<close> draws for the two values of \<open>hash(key) ^ 42\<close>.\<close>

definition key_hash_1 :: int where
  "key_hash_1 = - 6078556176741929965"

definition key_hash_2 :: int where
  "key_hash_2 = 2703517217666380416"

definition first_draw :: "int \<Rightarrow> real" where
  "first_draw h =
     (if h = - 6078556176741929927 then 8008641742671587 / 9007199254740992
      else if h = 2703517217666380458 then 4247813205504839 / 9007199254740992
      else 0)"

text \<open>Two worlds that differ only in the hash of that string, as the two processes do.\<close>

definition world_hashed :: "int \<Rightarrow> world" where
  "world_hashed h = \<lparr>clock = 0,
     str_hash = (\<lambda>s. if s = ''checkout-service:prod:error_rate:15'' then h else 0),
     mt_random = first_draw\<rparr>"

text \<open>The scenario's environment after the scale call to 6 replicas.\<close>

definition env_scaled :: env_state where
  "env_scaled = env_checkout\<lparr>deployments := [(''checkout-service'', ''prod'') \<mapsto>
        \<lparr>service = ''checkout-service'', namespace = ''prod'', replicas = 6, restarted_at = None\<rparr>]\<rparr>"

lemmas metrics_eval = outcome_def metrics_query_def env_checkout_eq EnvState_def int_to_double_def
  rng_def error_rate_metric_def fsub_def uniform_def py_max_def success_def
  str_int_def str_nat.simps digit_def fl_eval

lemma key_hash_xor_seed:
  "xor key_hash_1 42 = - 6078556176741929927" "xor key_hash_2 42 = 2703517217666380458"
  by (simp_all add: key_hash_1_def key_hash_2_def)

text \<open>
  C6. \<open>metrics_query\<close> is not a function of its arguments, the seed and the replica
  count: the generator is seeded with \<open>hash(key) ^ env.seed\<close>, and the hash of a string
  differs from one process to the next. On the same environment (seed 42, 6 replicas)
  and the same arguments, the process with the first hash returns the error rate
  \<open>0.026334827075212876\<close> with the status \<open>concerning\<close>, and the process with the second
  hash returns \<open>0.023829612015034952\<close> with the status \<open>acceptable\<close>.
\<close>

theorem metrics_query_depends_on_hash:
  "outcome (metrics_query (world_hashed key_hash_1) env_scaled (PStr ''checkout-service'')
     (PStr ''error_rate'') (PInt 15) (PStr ''prod'')) =
   Inr (success [(''metric'', DVal (PStr ''error_rate'')), (''minutes'', DVal (PInt 15)),
     (''value'', DFloat (Finite (3795248556889445 / 144115188075855872))),
     (''status'', DVal (PStr ''concerning'')),
     (''recommendation'', DVal (PStr ''Error rate still high, consider further scaling''))]) \<and>
   outcome (metrics_query (world_hashed key_hash_2) env_scaled (PStr ''checkout-service'')
     (PStr ''error_rate'') (PInt 15) (PStr ''prod'')) =
   Inr (success [(''metric'', DVal (PStr ''error_rate'')), (''minutes'', DVal (PInt 15)),
     (''value'', DFloat (Finite (3434209017321437 / 144115188075855872))),
     (''status'', DVal (PStr ''acceptable'')),
     (''recommendation'', DVal (PStr ''Error rate improved but could be better''))]) \<and>
   seed env_scaled = 42 \<and>
   mt_random (world_hashed key_hash_1) = mt_random (world_hashed key_hash_2) \<and>
   clock (world_hashed key_hash_1) = clock (world_hashed key_hash_2)"
  by (simp add: metrics_eval env_scaled_def world_hashed_def key_hash_xor_seed first_draw_def)
section \<open>Properties of the dispatch of a call\<close>

text \<open>The names of the registry, the parameters of each tool after \<open>env\<close>, and what it
  is for the arguments of a call to bind to them: no \<open>env\<close>, every name a parameter,
  and every parameter named.\<close>

definition tool_names :: "string set" where
  "tool_names = {''metrics_query'', ''k8s_scale'', ''k8s_restart'', ''feature_flag_set'',
     ''incident_log'', ''ticket_update''}"

definition tool_params :: "string \<Rightarrow> string list" where
  "tool_params nm =
     (if nm = ''metrics_query'' then [''service'', ''metric'', ''minutes'', ''namespace'']
      else if nm = ''k8s_scale'' then [''service'', ''replicas'', ''namespace'']
      else if nm = ''k8s_restart'' then [''service'', ''namespace'']
      else if nm = ''feature_flag_set'' then [''flag'', ''enabled'']
      else if nm = ''incident_log'' then [''message'', ''severity'']
      else if nm = ''ticket_update'' then [''status'', ''note'']
      else [])"

definition binds :: "string \<Rightarrow> (string \<times> pyval) list \<Rightarrow> bool" where
  "binds nm kwargs =
     (let keys = map fst kwargs in
      ''env'' \<notin> set keys \<and> list_all (\<lambda>k. k \<in> set (tool_params nm)) keys \<and>
      list_all (\<lambda>p. p \<in> set keys) (tool_params nm))"

lemma registry_None: "TOOL_REGISTRY nm = None \<longleftrightarrow> nm \<notin> tool_names"
  by (simp add: TOOL_REGISTRY_def tool_names_def)

lemma bind_kwargs_fails:
  assumes "\<not> (''env'' \<notin> set (map fst kwargs) \<and> list_all (\<lambda>k. k \<in> set params) (map fst kwargs) \<and>
      list_all (\<lambda>p. p \<in> set (map fst kwargs)) params)"
  shows "\<exists>m. bind_kwargs f params kwargs = Inl (TypeError m)"
proof (cases "''env'' \<in> set (map fst kwargs)")
  case True
  then show ?thesis by (simp add: bind_kwargs_def Let_def)
next
  case False
  show ?thesis
  proof (cases "filter (\<lambda>k. k \<notin> set params) (map fst kwargs) = []")
    case True
    then have "list_all (\<lambda>k. k \<in> set params) (map fst kwargs)"
      by (simp add: filter_empty_conv list_all_iff)
    with assms False have "\<not> list_all (\<lambda>p. p \<in> set (map fst kwargs)) params" by simp
    then have "filter (\<lambda>p. p \<notin> set (map fst kwargs)) params \<noteq> []"
      by (simp add: filter_empty_conv list_all_iff)
    with True False show ?thesis by (simp add: bind_kwargs_def Let_def)
  next
    case False
    then show ?thesis by (simp add: bind_kwargs_def Let_def)
  qed
qed

lemma registry_binds:
  assumes "TOOL_REGISTRY nm = Some fn"
    and "bind_kwargs nm (tool_params nm) kwargs = Inl e"
  shows "fn w env kwargs = Inl e"
  using registry_cases[OF assms(1)] assms(2)
  by (elim disjE conjE)
     (simp_all add: tool_params_def call_metrics_query_def call_k8s_scale_def call_k8s_restart_def
        call_feature_flag_set_def call_incident_log_def call_ticket_update_def)

lemma binds_succeeds:
  "binds nm kwargs \<Longrightarrow> \<exists>a. bind_kwargs f (tool_params nm) kwargs = Inr a"
  by (auto simp: binds_def bind_kwargs_def Let_def filter_empty_conv list_all_iff)

text \<open>
  C9, as amended. \<open>exec_tool\<close> returns a result for every call and environment. A name
  that is not in the registry gives the failure \<open>unknown tool: <name>\<close>. Arguments that
  do not bind to the parameters of the tool give a failure whose error starts with
  \<open>argument error:\<close>, and so does every TypeError that the call raises, also one raised
  inside the tool. Every other exception gives a failure whose error starts with
  \<open>runtime error:\<close>; a metrics query on a deployment of \<open>2^1024\<close> replicas or more is
  one. In each of these cases the environment is unchanged. Otherwise the result and the
  environment are the tool's.
\<close>

theorem exec_tool_outcomes:
  "(name c \<notin> tool_names \<longrightarrow> exec_tool w env c = (failure (''unknown tool: '' @ name c), env)) \<and>
   (name c \<in> tool_names \<and> \<not> binds (name c) (arguments c) \<longrightarrow>
      (\<exists>m. exec_tool w env c = (failure (''argument error: '' @ m), env))) \<and>
   (\<forall>fn m. TOOL_REGISTRY (name c) = Some fn \<and> fn w env (arguments c) = Inl (TypeError m) \<longrightarrow>
      exec_tool w env c = (failure (''argument error: '' @ m), env)) \<and>
   (\<forall>fn m. TOOL_REGISTRY (name c) = Some fn \<and> fn w env (arguments c) = Inl (OverflowError m) \<longrightarrow>
      exec_tool w env c = (failure (''runtime error: '' @ m), env)) \<and>
   (\<forall>fn res env'. TOOL_REGISTRY (name c) = Some fn \<and> fn w env (arguments c) = Inr (res, env') \<longrightarrow>
      exec_tool w env c = (res, env')) \<and>
   (\<forall>svc ns dep m. name c = ''metrics_query'' \<and>
      arguments c = [(''service'', PStr svc), (''metric'', PStr ''qps''), (''minutes'', PInt m),
        (''namespace'', PStr ns)] \<and> 0 < m \<and> m \<le> 120 \<and>
      deployments env (svc, ns) = Some dep \<and> 2 ^ 1024 \<le> replicas dep \<longrightarrow>
      exec_tool w env c = (failure ''runtime error: int too large to convert to float'', env))"
proof (intro conjI allI impI)
  assume "name c \<notin> tool_names"
  then show "exec_tool w env c = (failure (''unknown tool: '' @ name c), env)"
    by (simp add: exec_tool_def registry_None[symmetric])
next
  assume a: "name c \<in> tool_names \<and> \<not> binds (name c) (arguments c)"
  then obtain fn where fn: "TOOL_REGISTRY (name c) = Some fn"
    using registry_None[of "name c"] by auto
  from a obtain m where "bind_kwargs (name c) (tool_params (name c)) (arguments c) = Inl (TypeError m)"
    using bind_kwargs_fails[of "arguments c" "tool_params (name c)" "name c"]
    by (auto simp: binds_def Let_def)
  from registry_binds[OF fn this] have "fn w env (arguments c) = Inl (TypeError m)" .
  with fn have "exec_tool w env c = (failure (''argument error: '' @ m), env)"
    by (simp add: exec_tool_def)
  then show "\<exists>m. exec_tool w env c = (failure (''argument error: '' @ m), env)" ..
next
  fix fn m
  assume "TOOL_REGISTRY (name c) = Some fn \<and> fn w env (arguments c) = Inl (TypeError m)"
  then show "exec_tool w env c = (failure (''argument error: '' @ m), env)"
    by (simp add: exec_tool_def)
next
  fix fn m
  assume "TOOL_REGISTRY (name c) = Some fn \<and> fn w env (arguments c) = Inl (OverflowError m)"
  then show "exec_tool w env c = (failure (''runtime error: '' @ m), env)"
    by (simp add: exec_tool_def)
next
  fix fn res env'
  assume "TOOL_REGISTRY (name c) = Some fn \<and> fn w env (arguments c) = Inr (res, env')"
  then show "exec_tool w env c = (res, env')"
    by (simp add: exec_tool_def)
next
  fix svc ns dep m
  assume a: "name c = ''metrics_query'' \<and>
      arguments c = [(''service'', PStr svc), (''metric'', PStr ''qps''), (''minutes'', PInt m),
        (''namespace'', PStr ns)] \<and> 0 < m \<and> m \<le> 120 \<and>
      deployments env (svc, ns) = Some dep \<and> 2 ^ 1024 \<le> replicas dep"
  then have o: "int_to_double (replicas dep) = Inl (OverflowError ''int too large to convert to float'')"
    by (intro int_to_double_overflow) simp
  from a have "call_metrics_query w env (arguments c) =
      Inl (OverflowError ''int too large to convert to float'')"
    by (simp add: call_metrics_query_def bind_kwargs_def metrics_query_def o Let_def)
  with a show "exec_tool w env c = (failure ''runtime error: int too large to convert to float'', env)"
    by (simp add: exec_tool_def TOOL_REGISTRY_def)
qed

text \<open>A scale call whose replica count is the string \<open>"150"\<close>, a scenario whose
  deployment has \<open>2^1024\<close> replicas, and a throughput query.\<close>

definition scale_call_str :: tool_call where
  "scale_call_str = \<lparr>name = ''k8s_scale'', arguments =
     [(''service'', PStr ''checkout-service''), (''replicas'', PStr ''150''), (''namespace'', PStr ''prod'')]\<rparr>"

definition huge_initial :: initial_state where
  "huge_initial = \<lparr>init_deployments =
       [\<lparr>item_service = ''checkout-service'', item_namespace = ''prod'', item_replicas = Some (2 ^ 1024)\<rparr>],
     init_feature_flags = [], init_ticket = None\<rparr>"

definition qps_call :: tool_call where
  "qps_call = \<lparr>name = ''metrics_query'', arguments =
     [(''service'', PStr ''checkout-service''), (''metric'', PStr ''qps''),
      (''minutes'', PInt 15), (''namespace'', PStr ''prod'')]\<rparr>"

text \<open>The theorem at an unknown name, at the scale call without \<open>replicas\<close>, at the
  throughput query of the huge deployment, and at a scale call that succeeds.\<close>

theorem exec_tool_outcomes_witness:
  "exec_tool world0 env_checkout \<lparr>name = ''reboot'', arguments = []\<rparr> =
     (failure ''unknown tool: reboot'', env_checkout) \<and>
   \<not> binds ''k8s_scale'' (arguments scale_call_no_replicas) \<and>
   (\<exists>m. exec_tool world0 env_checkout scale_call_no_replicas = (failure (''argument error: '' @ m), env_checkout)) \<and>
   exec_tool world0 (build_env huge_initial) qps_call =
     (failure ''runtime error: int too large to convert to float'', build_env huge_initial) \<and>
   (\<exists>res env'. exec_tool world0 env_checkout (scale_call 6) = (res, env') \<and> ok res \<and>
      deployments env' (''checkout-service'', ''prod'') =
        Some \<lparr>service = ''checkout-service'', namespace = ''prod'', replicas = 6, restarted_at = None\<rparr>)"
proof -
  have 1: "exec_tool world0 env_checkout \<lparr>name = ''reboot'', arguments = []\<rparr> =
     (failure ''unknown tool: reboot'', env_checkout)"
    using exec_tool_outcomes[where c = "\<lparr>name = ''reboot'', arguments = []\<rparr>" and w = world0
        and env = env_checkout, THEN conjunct1]
    by (simp add: tool_names_def)
  have nb: "\<not> binds ''k8s_scale'' (arguments scale_call_no_replicas)"
    by (simp add: binds_def tool_params_def scale_call_no_replicas_def)
  have 2: "\<exists>m. exec_tool world0 env_checkout scale_call_no_replicas =
      (failure (''argument error: '' @ m), env_checkout)"
    using exec_tool_outcomes[where c = scale_call_no_replicas and w = world0
        and env = env_checkout, THEN conjunct2, THEN conjunct1] nb
    by (simp add: tool_names_def scale_call_no_replicas_def)
  have d: "deployments (build_env huge_initial) (''checkout-service'', ''prod'') =
      Some \<lparr>service = ''checkout-service'', namespace = ''prod'', replicas = 2 ^ 1024, restarted_at = None\<rparr>"
    by (simp add: huge_initial_def build_env_def build_ticket_def)
  have 3: "exec_tool world0 (build_env huge_initial) qps_call =
     (failure ''runtime error: int too large to convert to float'', build_env huge_initial)"
    using exec_tool_outcomes[where c = qps_call and w = world0 and env = "build_env huge_initial",
        THEN conjunct2, THEN conjunct2, THEN conjunct2, THEN conjunct2, THEN conjunct2,
        rule_format, of "''checkout-service''" 15 "''prod''"
          "\<lparr>service = ''checkout-service'', namespace = ''prod'', replicas = 2 ^ 1024, restarted_at = None\<rparr>"]
      d
    by (simp add: qps_call_def)
  have r: "TOOL_REGISTRY (name (scale_call 6)) = Some call_k8s_scale"
    by (simp add: TOOL_REGISTRY_def scale_call_def)
  have s: "call_k8s_scale world0 env_checkout (arguments (scale_call 6)) =
      Inr (success [(''service'', DVal (PStr ''checkout-service'')), (''namespace'', DVal (PStr ''prod'')),
             (''replicas'', DVal (PInt 6))],
           env_checkout\<lparr>deployments := (deployments env_checkout)((''checkout-service'', ''prod'') \<mapsto>
             \<lparr>service = ''checkout-service'', namespace = ''prod'', replicas = 6, restarted_at = None\<rparr>)\<rparr>)"
    by (simp add: scale_call_def call_k8s_scale_def bind_kwargs_def k8s_scale_def env_checkout_eq)
  have 4: "\<exists>res env'. exec_tool world0 env_checkout (scale_call 6) = (res, env') \<and> ok res \<and>
      deployments env' (''checkout-service'', ''prod'') =
        Some \<lparr>service = ''checkout-service'', namespace = ''prod'', replicas = 6, restarted_at = None\<rparr>"
    using exec_tool_outcomes[where c = "scale_call 6" and w = world0 and env = env_checkout,
        THEN conjunct2, THEN conjunct2, THEN conjunct2, THEN conjunct2, THEN conjunct1,
        rule_format, OF conjI, OF r s]
    by (simp add: success_def)
  from 1 nb 2 3 4 show ?thesis by (simp only: simp_thms)
qed

text \<open>
  C9 as stated says that an exception raised inside a tool, other than a failure to bind,
  gives \<open>runtime error:\<close>. The scale call with the replica count \<open>"150"\<close> binds; the
  comparison \<open>replicas < 1\<close> inside \<open>k8s_scale\<close> raises TypeError; and the result is an
  \<open>argument error:\<close>, not a \<open>runtime error:\<close>.
\<close>

theorem exec_tool_type_error_in_tool_counterexample:
  "binds ''k8s_scale'' (arguments scale_call_str) \<and>
   k8s_scale world0 env_checkout (PStr ''checkout-service'') (PStr ''150'') (PStr ''prod'') =
     Inl (TypeError (quoted ''<'' @ '' not supported between instances of '' @ quoted ''str'' @
       '' and '' @ quoted ''int'')) \<and>
   exec_tool world0 env_checkout scale_call_str =
     (failure (''argument error: '' @ quoted ''<'' @ '' not supported between instances of '' @
        quoted ''str'' @ '' and '' @ quoted ''int''), env_checkout) \<and>
   \<not> starts_with ''runtime error:'' (error_text (fst (exec_tool world0 env_checkout scale_call_str)))"
  by (simp add: binds_def tool_params_def scale_call_str_def exec_tool_def TOOL_REGISTRY_def
      call_k8s_scale_def bind_kwargs_def k8s_scale_def cmp_error_def quoted_def failure_def
      error_text_def)

section \<open>The scenarios of the specification\<close>

text \<open>The calls of the first end-to-end scenario after the scale call and the query,
  and the environments on its way.\<close>

definition log_call :: tool_call where
  "log_call = \<lparr>name = ''incident_log'', arguments =
     [(''message'', PStr ''scaled checkout-service to mitigate errors''), (''severity'', PStr ''warning'')]\<rparr>"

definition ticket_call :: tool_call where
  "ticket_call = \<lparr>name = ''ticket_update'', arguments =
     [(''status'', PStr ''mitigated''), (''note'', PStr ''scaled and verified'')]\<rparr>"

lemma exec_scale_6:
  "exec_tool w env_checkout (scale_call 6) =
     (success [(''service'', DVal (PStr ''checkout-service'')), (''namespace'', DVal (PStr ''prod'')),
        (''replicas'', DVal (PInt 6))],
      env_checkout\<lparr>deployments := [(''checkout-service'', ''prod'') \<mapsto>
        \<lparr>service = ''checkout-service'', namespace = ''prod'', replicas = 6, restarted_at = None\<rparr>]\<rparr>)"
  by (simp add: scale_call_def exec_tool_def TOOL_REGISTRY_def call_k8s_scale_def bind_kwargs_def
      k8s_scale_def env_checkout_eq)

lemma exec_query_scaled:
  "ok (fst (exec_tool world0 env_scaled query_call)) \<and>
   snd (exec_tool world0 env_scaled query_call) = env_scaled"
  by (simp add: query_call_def exec_tool_def TOOL_REGISTRY_def call_metrics_query_def bind_kwargs_def
      env_scaled_def metrics_eval world0_def)

lemma exec_log_scaled:
  "ok (fst (exec_tool world0 env_scaled log_call)) \<and>
   snd (exec_tool world0 env_scaled log_call) =
     env_scaled\<lparr>incident_log_entries := [\<lparr>ts = 0, severity = ''warning'',
        message = PStr ''scaled checkout-service to mitigate errors''\<rparr>]\<rparr>"
  by (simp add: log_call_def exec_tool_def TOOL_REGISTRY_def call_incident_log_def bind_kwargs_def
      incident_log_def env_scaled_def env_checkout_eq EnvState_def world0_def success_def)

definition env_logged :: env_state where
  "env_logged = env_scaled\<lparr>incident_log_entries := [\<lparr>ts = 0, severity = ''warning'',
        message = PStr ''scaled checkout-service to mitigate errors''\<rparr>]\<rparr>"

lemma exec_ticket_logged:
  "ok (fst (exec_tool world0 env_logged ticket_call)) \<and>
   snd (exec_tool world0 env_logged ticket_call) =
     env_logged\<lparr>env_ticket := \<lparr>status = ''mitigated'', ticket_note = PStr ''scaled and verified''\<rparr>\<rparr>"
  by (simp add: ticket_call_def exec_tool_def TOOL_REGISTRY_def call_ticket_update_def bind_kwargs_def
      ticket_update_def success_def)

lemma call_names:
  "name (scale_call n) = ''k8s_scale''" "name query_call = ''metrics_query''"
  "name log_call = ''incident_log''" "name ticket_call = ''ticket_update''"
  by (simp_all add: scale_call_def query_call_def log_call_def ticket_call_def)

definition env_final :: env_state where
  "env_final = env_logged\<lparr>env_ticket := \<lparr>status = ''mitigated'', ticket_note = PStr ''scaled and verified''\<rparr>\<rparr>"

lemma run_calls_step:
  "i < m \<Longrightarrow> run_calls wa m i env (c # cs) =
     (\<lparr>step = i + 1, call = c, result = fst (exec_tool (wa i) env c)\<rparr> #
        fst (run_calls wa m (i + 1) (snd (exec_tool (wa i) env c)) cs),
      snd (run_calls wa m (i + 1) (snd (exec_tool (wa i) env c)) cs))"
  by (simp add: case_prod_beta Let_def)

lemma end_to_end_run:
  "run_sequence (\<lambda>i. world0) env_checkout [scale_call 6, query_call, log_call, ticket_call] 8 =
     (\<lparr>tool_calls =
        [\<lparr>step = 1, call = scale_call 6, result = fst (exec_tool world0 env_checkout (scale_call 6))\<rparr>,
         \<lparr>step = 2, call = query_call, result = fst (exec_tool world0 env_scaled query_call)\<rparr>,
         \<lparr>step = 3, call = log_call, result = fst (exec_tool world0 env_scaled log_call)\<rparr>,
         \<lparr>step = 4, call = ticket_call, result = fst (exec_tool world0 env_logged ticket_call)\<rparr>]\<rparr>,
      env_final)"
proof -
  have 1: "snd (exec_tool world0 env_checkout (scale_call 6)) = env_scaled"
    by (simp add: exec_scale_6 env_scaled_def)
  have 2: "snd (exec_tool world0 env_scaled query_call) = env_scaled"
    using exec_query_scaled by simp
  have 3: "snd (exec_tool world0 env_scaled log_call) = env_logged"
    using exec_log_scaled by (simp add: env_logged_def)
  have 4: "snd (exec_tool world0 env_logged ticket_call) = env_final"
    using exec_ticket_logged by (simp add: env_final_def)
  show ?thesis
    by (simp add: run_sequence_def run_calls_step 1 2 3 4 del: run_calls.simps(2))
qed

text \<open>
  The first end-to-end scenario of the specification: scale to 6, query the error rate,
  log the incident, update the ticket. The deployment has 6 replicas, the log has the
  one message, the ticket is \<open>mitigated\<close>, the four signals are true, acceptance and
  technical success are valid, and the score is 100.0.
\<close>

theorem end_to_end_scenario:
  "snd (run_sequence (\<lambda>i. world0) env_checkout [scale_call 6, query_call, log_call, ticket_call] 8) = env_final \<and>
   map_option replicas (deployments env_final (''checkout-service'', ''prod'')) = Some 6 \<and>
   map message (incident_log_entries env_final) = [PStr ''scaled checkout-service to mitigate errors''] \<and>
   status (env_ticket env_final) = ''mitigated'' \<and>
   partial_credit (fst (run_sequence (\<lambda>i. world0) env_checkout
       [scale_call 6, query_call, log_call, ticket_call] 8)) =
     \<lparr>tool_syntax_ok = True, verification_performed = True, incident_logged = True,
      ticket_updated = True\<rparr> \<and>
   check_acceptance env_final (criteria_scaled ''mitigated'') = Inr \<lparr>valid = True, reasons = []\<rparr> \<and>
   check_technical_success env_final (criteria_scaled ''mitigated'') = Inr \<lparr>valid = True, reasons = []\<rparr> \<and>
   total_score (compute_weighted_score \<lparr>valid = True, reasons = []\<rparr>
      (partial_credit (fst (run_sequence (\<lambda>i. world0) env_checkout
         [scale_call 6, query_call, log_call, ticket_call] 8)))
      \<lparr>valid = True, reasons = []\<rparr>) = Finite 100"
proof -
  let ?T = "fst (run_sequence (\<lambda>i. world0) env_checkout [scale_call 6, query_call, log_call, ticket_call] 8)"
  have f: "env_final = \<lparr>deployments = [(''checkout-service'', ''prod'') \<mapsto>
        \<lparr>service = ''checkout-service'', namespace = ''prod'', replicas = 6, restarted_at = None\<rparr>],
     feature_flags = Map.empty,
     env_ticket = \<lparr>status = ''mitigated'', ticket_note = PStr ''scaled and verified''\<rparr>,
     incident_log_entries = [\<lparr>ts = 0, severity = ''warning'',
        message = PStr ''scaled checkout-service to mitigate errors''\<rparr>],
     seed = 42\<rparr>"
    by (simp add: env_final_def env_logged_def env_scaled_def env_checkout_eq EnvState_def)
  have oks: "ok (fst (exec_tool world0 env_checkout (scale_call 6)))"
    "ok (fst (exec_tool world0 env_scaled query_call))"
    "ok (fst (exec_tool world0 env_scaled log_call))"
    "ok (fst (exec_tool world0 env_logged ticket_call))"
    using exec_query_scaled exec_log_scaled exec_ticket_logged
    by (simp_all add: exec_scale_6 success_def)
  have p: "partial_credit ?T =
     \<lparr>tool_syntax_ok = True, verification_performed = True, incident_logged = True,
      ticket_updated = True\<rparr>"
    unfolding end_to_end_run fst_conv
    by (simp add: partial_credit_def is_arg_error_def oks Let_def call_names)
  have a: "check_acceptance env_final (criteria_scaled ''mitigated'') = Inr \<lparr>valid = True, reasons = []\<rparr>"
    by (simp add: f criteria_scaled_def scoring_eval_defs)
  have t: "check_technical_success env_final (criteria_scaled ''mitigated'') = Inr \<lparr>valid = True, reasons = []\<rparr>"
    by (simp add: f criteria_scaled_def scoring_eval_defs)
  have s: "total_score (compute_weighted_score \<lparr>valid = True, reasons = []\<rparr> (partial_credit ?T)
      \<lparr>valid = True, reasons = []\<rparr>) = Finite 100"
    by (simp add: p total_eval points_def)
  show ?thesis
    by (intro conjI, simp add: end_to_end_run, simp add: f, simp add: f, simp add: f, rule p, rule a,
        rule t, rule s)
qed

text \<open>The criteria of the second scenario: at least 5 replicas and a log message that
  contains \<open>mitigat\<close>.\<close>

definition criteria_mitigat :: criteria where
  "criteria_mitigat = \<lparr>deployment = Some [(''service'', PStr ''checkout-service''),
        (''namespace'', PStr ''prod''), (''replicas_gte'', PInt 5)],
     incident_log_contains = Some ''mitigat'', ticket_status = None\<rparr>"

text \<open>
  The second end-to-end scenario: the scale call alone. Technical success and acceptance
  are not valid (the log has no message), \<open>incident_logged\<close> is false, and the score is
  the 5 points of \<open>tool_syntax_ok\<close>.
\<close>

theorem scale_only_scenario:
  "snd (run_sequence (\<lambda>i. world0) env_checkout [scale_call 6] 8) = env_scaled \<and>
   check_technical_success env_scaled criteria_mitigat =
     Inr \<lparr>valid = False, reasons = [''incident log missing required message'']\<rparr> \<and>
   check_acceptance env_scaled criteria_mitigat =
     Inr \<lparr>valid = False, reasons = [''incident log missing required message'']\<rparr> \<and>
   partial_credit (fst (run_sequence (\<lambda>i. world0) env_checkout [scale_call 6] 8)) =
     \<lparr>tool_syntax_ok = True, verification_performed = False, incident_logged = False,
      ticket_updated = False\<rparr> \<and>
   total_score (compute_weighted_score \<lparr>valid = False, reasons = [''incident log missing required message'']\<rparr>
      (partial_credit (fst (run_sequence (\<lambda>i. world0) env_checkout [scale_call 6] 8)))
      \<lparr>valid = False, reasons = [''incident log missing required message'']\<rparr>) = Finite 5"
proof -
  let ?T = "fst (run_sequence (\<lambda>i. world0) env_checkout [scale_call 6] 8)"
  have r: "run_sequence (\<lambda>i. world0) env_checkout [scale_call 6] 8 =
     (\<lparr>tool_calls = [\<lparr>step = 1, call = scale_call 6,
         result = fst (exec_tool world0 env_checkout (scale_call 6))\<rparr>]\<rparr>, env_scaled)"
    using run_sequence_one[of "\<lambda>i. world0" env_checkout "scale_call 6" 7]
    by (simp add: eval_nat_numeral exec_scale_6 env_scaled_def)
  have p: "partial_credit ?T =
     \<lparr>tool_syntax_ok = True, verification_performed = False, incident_logged = False,
      ticket_updated = False\<rparr>"
    unfolding r fst_conv
    by (simp add: partial_credit_def is_arg_error_def exec_scale_6 success_def Let_def call_names)
  have t: "check_technical_success env_scaled criteria_mitigat =
     Inr \<lparr>valid = False, reasons = [''incident log missing required message'']\<rparr>"
    by (simp add: env_scaled_def env_checkout_eq EnvState_def criteria_mitigat_def scoring_eval_defs)
  have a: "check_acceptance env_scaled criteria_mitigat =
     Inr \<lparr>valid = False, reasons = [''incident log missing required message'']\<rparr>"
    by (simp add: env_scaled_def env_checkout_eq EnvState_def criteria_mitigat_def scoring_eval_defs)
  have s: "total_score (compute_weighted_score \<lparr>valid = False, reasons = [''incident log missing required message'']\<rparr>
      (partial_credit ?T)
      \<lparr>valid = False, reasons = [''incident log missing required message'']\<rparr>) = Finite 5"
    by (simp add: p total_eval points_def)
  show ?thesis
    by (intro conjI, simp add: r, rule t, rule a, rule p, rule s)
qed

end
